theory Spec2Isabelle
  imports Complex_Main
begin

section \<open>The VSS stratified-reward environment (src/envs/vss_strat.py)\<close>

text \<open>
  A shallow embedding of the class \<open>VSSStratEnv\<close>. Python floats are modelled by the reals,
  so rounding is not represented. The one place where the code leaves the finite numbers
  with finite inputs, the normalisation of a zero vector in \<open>__move_reward\<close>, is kept
  as the value \<open>NaN\<close> of the type \<open>npfloat\<close>; \<open>NaN\<close> is absorbing for the arithmetic
  of numpy. Exceptions are the left injection of a sum type.
\<close>

subsection \<open>Numbers and errors\<close>

datatype npfloat = Num real | NaN

fun np_add :: "npfloat \<Rightarrow> npfloat \<Rightarrow> npfloat" where
  "np_add (Num a) (Num b) = Num (a + b)"
| "np_add _ _ = NaN"

fun np_mul :: "npfloat \<Rightarrow> npfloat \<Rightarrow> npfloat" where
  "np_mul (Num a) (Num b) = Num (a * b)"
| "np_mul _ _ = NaN"

text \<open>\<open>array.sum()\<close>: the elements added from the left, starting at 0.\<close>

definition np_sum :: "npfloat list \<Rightarrow> npfloat" where
  "np_sum xs = foldl np_add (Num 0) xs"

text \<open>\<open>a == b\<close> on floats: never true of nan.\<close>

fun np_eq :: "npfloat \<Rightarrow> real \<Rightarrow> bool" where
  "np_eq (Num a) b = (a = b)"
| "np_eq NaN b = False"

datatype error = KeyError | IndexError | TypeError | AssertionError | ZeroDivisionError

subsection \<open>Entities of the simulator: only the attributes this class reads or writes\<close>

record Ball =
  ball_x :: real
  ball_y :: real
  ball_v_x :: real
  ball_v_y :: real

record Robot =
  yellow :: bool
  robot_id :: nat
  robot_x :: real
  robot_y :: real
  theta :: real
  robot_v_x :: real
  robot_v_y :: real
  v_theta :: real
  v_wheel0 :: real
  v_wheel1 :: real

text \<open>The robots of a frame are dictionaries from the robot's id.\<close>

record Frame =
  ball :: Ball
  robots_blue :: "nat \<rightharpoonup> Robot"
  robots_yellow :: "nat \<rightharpoonup> Robot"

subsection \<open>The environment: what the constructor fixes, and the attributes that change\<close>

text \<open>
  \<open>field_length\<close>, \<open>field_width\<close>, \<open>rbt_wheel_radius\<close>, \<open>max_v\<close> and the three
  normalisations \<open>norm_pos\<close>, \<open>norm_v\<close>, \<open>norm_w\<close> belong to the base class
  \<open>VSSBaseEnv\<close> of the library rsoccer_gym and to its simulator; they are parameters here.
\<close>

record config =
  stratified :: bool
  n_robots_blue :: nat
  n_robots_yellow :: nat
  field_length :: real
  field_width :: real
  rbt_wheel_radius :: real
  max_v :: real
  norm_pos :: "real \<Rightarrow> real"
  norm_v :: "real \<Rightarrow> real"
  norm_w :: "real \<Rightarrow> real"

definition v_wheel_deadzone :: real where
  "v_wheel_deadzone = 0.05"

definition energy_scale :: real where
  "energy_scale = 40000"

definition grad_scale :: real where
  "grad_scale = 0.75"

definition move_scale :: real where
  "move_scale = 120"

definition ori_weights :: "real list" where
  "ori_weights = [0.6600, 0.3200, 0.0053, 0.0080]"

text \<open>
  The dictionary \<open>cumulative_reward_info\<close>: its five keys are those of the literal in
  \<open>_calculate_reward_and_done\<close>; \<open>goal_blue\<close> and \<open>goal_yellow\<close> are absent until
  \<open>step\<close> stores them.
\<close>

record info =
  reward_move :: npfloat
  reward_ball_grad :: npfloat
  reward_energy :: npfloat
  reward_goal :: npfloat
  Original_reward :: npfloat
  goal_blue :: "int option"
  goal_yellow :: "int option"

type_synonym action = "real \<times> real"

record state =
  frame :: Frame
  last_frame :: "Frame option"
  sent_commands :: "Robot list option"
  actions :: "(nat \<rightharpoonup> action) option"
  cumulative_reward_info :: "info option"
  previous_ball_potential :: "real option"

subsection \<open>The reward components\<close>

text \<open>\<open>np.linalg.norm\<close> of a vector of two components.\<close>

definition linalg_norm :: "real \<times> real \<Rightarrow> real" where
  "linalg_norm v = sqrt ((fst v)\<^sup>2 + (snd v)\<^sup>2)"

text \<open>
  \<open>__ball_grad\<close>: the distance of the ball to the goal at \<open>(length / 2, 0)\<close> in the last
  frame minus that distance now, over \<open>grad_scale\<close>.
\<close>

definition ball_grad :: "config \<Rightarrow> state \<Rightarrow> error + real" where
  "ball_grad cfg s =
     (case last_frame s of
        None \<Rightarrow> Inl AssertionError
      | Some lf \<Rightarrow>
          (let last_ball = ball lf;
               last_ball_pos = (ball_x last_ball, ball_y last_ball);
               goal_pos = (field_length cfg / 2, 0);
               last_ball_dist =
                 linalg_norm (fst goal_pos - fst last_ball_pos, snd goal_pos - snd last_ball_pos);
               b = ball (frame s);
               ball_pos = (ball_x b, ball_y b);
               ball_dist = linalg_norm (fst goal_pos - fst ball_pos, snd goal_pos - snd ball_pos);
               ball_dist_rw = last_ball_dist - ball_dist
           in Inr (ball_dist_rw / grad_scale)))"

text \<open>
  \<open>__move_reward\<close>. The vector from the robot to the ball is divided by its norm with no
  test of the norm. The norm is 0 only when both components are 0, so numpy computes
  0 / 0 = nan in both components there (with a RuntimeWarning, no exception), and nan
  goes through \<open>np.dot\<close> and the division by \<open>move_scale\<close>.
\<close>

definition move_reward :: "state \<Rightarrow> error + npfloat" where
  "move_reward s =
     (case robots_blue (frame s) 0 of
        None \<Rightarrow> Inl KeyError
      | Some r \<Rightarrow>
          (let b = (ball_x (ball (frame s)), ball_y (ball (frame s)));
               robot = (robot_x r, robot_y r);
               robot_vel = (robot_v_x r, robot_v_y r);
               robot_ball = (fst b - fst robot, snd b - snd robot);
               n = linalg_norm robot_ball
           in if n = 0 then Inr NaN
              else (let unit = (fst robot_ball / n, snd robot_ball / n);
                        dot = fst unit * fst robot_vel + snd unit * snd robot_vel
                    in Inr (Num (dot / move_scale)))))"

text \<open>
  The words of the specification for the move component, and of the docstring of
  \<open>__move_reward\<close> ("Cosine between the robot vel vector and the vector robot -> ball"):
  the cosine of the angle between two vectors.
\<close>

definition cosine_similarity :: "real \<times> real \<Rightarrow> real \<times> real \<Rightarrow> real" where
  "cosine_similarity u v = (fst u * fst v + snd u * snd v) / (linalg_norm u * linalg_norm v)"

text \<open>\<open>__energy_penalty\<close>, from the command sent to the robot of index 0.\<close>

definition energy_penalty :: "state \<Rightarrow> error + real" where
  "energy_penalty s =
     (case sent_commands s of
        None \<Rightarrow> Inl TypeError
      | Some [] \<Rightarrow> Inl IndexError
      | Some (c # cs) \<Rightarrow>
          (let en_penalty_1 = \<bar>v_wheel0 c\<bar>;
               en_penalty_2 = \<bar>v_wheel1 c\<bar>;
               penalty = - (en_penalty_1 + en_penalty_2)
           in Inr (penalty / energy_scale)))"

definition zero_info :: info where
  "zero_info =
     \<lparr>reward_move = Num 0, reward_ball_grad = Num 0, reward_energy = Num 0,
      reward_goal = Num 0, Original_reward = Num 0, goal_blue = None, goal_yellow = None\<rparr>"

text \<open>
  The four local variables \<open>(goal_reward, move_reward, grad_ball_potential,
  energy_penalty)\<close> after the goal test of \<open>_calculate_reward_and_done\<close>.
\<close>

definition components :: "config \<Rightarrow> state \<Rightarrow> error + (int \<times> npfloat \<times> real \<times> real)" where
  "components cfg s =
     (if ball_x (ball (frame s)) > field_length cfg / 2 then Inr (1, Num 0, 0, 0)
      else if ball_x (ball (frame s)) < - (field_length cfg / 2) then Inr (- 1, Num 0, 0, 0)
      else if last_frame s \<noteq> None then
        (case move_reward s of
           Inl e \<Rightarrow> Inl e
         | Inr m \<Rightarrow>
             (case ball_grad cfg s of
                Inl e \<Rightarrow> Inl e
              | Inr g \<Rightarrow>
                  (case energy_penalty s of
                     Inl e \<Rightarrow> Inl e
                   | Inr en \<Rightarrow> Inr (0, m, g, en))))
      else Inr (0, Num 0, 0, 0))"

text \<open>
  \<open>_calculate_reward_and_done\<close>: the vector of rewards, the flag, and the state with the
  totals updated. An exception leaves no result.
\<close>

definition calculate_reward_and_done ::
  "config \<Rightarrow> state \<Rightarrow> error + (npfloat list \<times> bool \<times> state)" where
  "calculate_reward_and_done cfg s =
     (let rewards0 = replicate 4 (Num 0);
          c0 = (case cumulative_reward_info s of None \<Rightarrow> zero_info | Some c \<Rightarrow> c)
      in case components cfg s of
           Inl e \<Rightarrow> Inl e
         | Inr (goal_reward, move, grad_ball_potential, energy) \<Rightarrow>
             (let rewards1 = rewards0[0 := np_add (rewards0 ! 0) move];
                  rewards2 = rewards1[1 := np_add (rewards1 ! 1) (Num grad_ball_potential)];
                  rewards3 = rewards2[2 := np_add (rewards2 ! 2) (Num energy)];
                  rewards = rewards3[3 := np_add (rewards3 ! 3) (Num (real_of_int goal_reward))];
                  c1 = c0\<lparr>reward_move := np_add (reward_move c0) (rewards ! 0)\<rparr>;
                  c2 = c1\<lparr>reward_ball_grad := np_add (reward_ball_grad c1) (rewards ! 1)\<rparr>;
                  c3 = c2\<lparr>reward_energy := np_add (reward_energy c2) (rewards ! 2)\<rparr>;
                  c4 = c3\<lparr>reward_goal := np_add (reward_goal c3) (rewards ! 3)\<rparr>
              in Inr (rewards, goal_reward \<noteq> 0, s\<lparr>cumulative_reward_info := Some c4\<rparr>)))"

subsection \<open>The actuator mapper and the commands of a step\<close>

text \<open>\<open>np.clip(v, lo, hi)\<close>: \<open>minimum(maximum(v, lo), hi)\<close>.\<close>

definition np_clip :: "real \<Rightarrow> real \<Rightarrow> real \<Rightarrow> real" where
  "np_clip v lo hi = min (max v lo) hi"

text \<open>
  \<open>_actions_to_v_wheels\<close>. A wheel radius of 0 leaves the reals: Python raises
  ZeroDivisionError on the 0 of the dead zone, and numpy divides to inf or nan otherwise;
  the model makes it the error.
\<close>

definition actions_to_v_wheels :: "config \<Rightarrow> action \<Rightarrow> error + (real \<times> real)" where
  "actions_to_v_wheels cfg acts =
     (let left_wheel_speed0 = fst acts * max_v cfg;
          right_wheel_speed0 = snd acts * max_v cfg;
          left_wheel_speed1 = np_clip left_wheel_speed0 (- max_v cfg) (max_v cfg);
          right_wheel_speed1 = np_clip right_wheel_speed0 (- max_v cfg) (max_v cfg);
          left_wheel_speed2 =
            (if - v_wheel_deadzone < left_wheel_speed1 \<and> left_wheel_speed1 < v_wheel_deadzone
             then 0 else left_wheel_speed1);
          right_wheel_speed2 =
            (if - v_wheel_deadzone < right_wheel_speed1 \<and> right_wheel_speed1 < v_wheel_deadzone
             then 0 else right_wheel_speed1)
      in if rbt_wheel_radius cfg = 0 then Inl ZeroDivisionError
         else Inr (left_wheel_speed2 / rbt_wheel_radius cfg,
                   right_wheel_speed2 / rbt_wheel_radius cfg))"

text \<open>
  \<open>Robot(yellow=.., id=.., v_wheel0=.., v_wheel1=..)\<close>: the attributes not given keep the
  default of the library, written 0 here.
\<close>

definition command :: "bool \<Rightarrow> nat \<Rightarrow> real \<times> real \<Rightarrow> Robot" where
  "command yl i v =
     \<lparr>yellow = yl, robot_id = i, robot_x = 0, robot_y = 0, theta = 0,
      robot_v_x = 0, robot_v_y = 0, v_theta = 0, v_wheel0 = fst v, v_wheel1 = snd v\<rparr>"

text \<open>
  The loops of \<open>_get_commands\<close> over the robots that do not learn. \<open>ou k\<close> is what
  \<open>ou_actions[k].sample()\<close> returns at this step (a noise process of the library, an
  input here); \<open>off\<close> is the offset of the robot's noise source.
\<close>

fun noise_commands ::
  "config \<Rightarrow> (nat \<Rightarrow> action) \<Rightarrow> bool \<Rightarrow> nat \<Rightarrow> nat list \<Rightarrow> error + Robot list" where
  "noise_commands cfg ou yl off [] = Inr []"
| "noise_commands cfg ou yl off (i # ids) =
     (case actions_to_v_wheels cfg (ou (off + i)) of
        Inl e \<Rightarrow> Inl e
      | Inr v \<Rightarrow>
          (case noise_commands cfg ou yl off ids of
             Inl e \<Rightarrow> Inl e
           | Inr cs \<Rightarrow> Inr (command yl i v # cs)))"

definition get_commands ::
  "config \<Rightarrow> action \<Rightarrow> (nat \<Rightarrow> action) \<Rightarrow> state \<Rightarrow> error + (Robot list \<times> state)" where
  "get_commands cfg acts ou s =
     (case actions_to_v_wheels cfg acts of
        Inl e \<Rightarrow> Inl e
      | Inr v \<Rightarrow>
          (case noise_commands cfg ou False 0 [1..<n_robots_blue cfg] of
             Inl e \<Rightarrow> Inl e
           | Inr blue \<Rightarrow>
               (case noise_commands cfg ou True (n_robots_blue cfg) [0..<n_robots_yellow cfg] of
                  Inl e \<Rightarrow> Inl e
                | Inr yel \<Rightarrow>
                    Inr (command False 0 v # blue @ yel,
                         s\<lparr>actions := Some (\<lambda>i. if i = 0 then Some acts
                                                else if i < n_robots_blue cfg then Some (ou i)
                                                else None)\<rparr>))))"

subsection \<open>The observation encoder\<close>

text \<open>The declared \<open>observation_space\<close> has shape \<open>(40,)\<close>, whatever the robot counts.\<close>

definition observation_space_shape :: nat where
  "observation_space_shape = 40"

definition deg2rad :: "real \<Rightarrow> real" where
  "deg2rad d = d * pi / 180"

fun blue_observations :: "config \<Rightarrow> Frame \<Rightarrow> nat list \<Rightarrow> error + real list" where
  "blue_observations cfg f [] = Inr []"
| "blue_observations cfg f (i # ids) =
     (case robots_blue f i of
        None \<Rightarrow> Inl KeyError
      | Some r \<Rightarrow>
          (case blue_observations cfg f ids of
             Inl e \<Rightarrow> Inl e
           | Inr rest \<Rightarrow>
               Inr ([norm_pos cfg (robot_x r), norm_pos cfg (robot_y r),
                     sin (deg2rad (theta r)), cos (deg2rad (theta r)),
                     norm_v cfg (robot_v_x r), norm_v cfg (robot_v_y r),
                     norm_w cfg (v_theta r)] @ rest)))"

fun yellow_observations :: "config \<Rightarrow> Frame \<Rightarrow> nat list \<Rightarrow> error + real list" where
  "yellow_observations cfg f [] = Inr []"
| "yellow_observations cfg f (i # ids) =
     (case robots_yellow f i of
        None \<Rightarrow> Inl KeyError
      | Some r \<Rightarrow>
          (case yellow_observations cfg f ids of
             Inl e \<Rightarrow> Inl e
           | Inr rest \<Rightarrow>
               Inr ([norm_pos cfg (robot_x r), norm_pos cfg (robot_y r),
                     norm_v cfg (robot_v_x r), norm_v cfg (robot_v_y r),
                     norm_w cfg (v_theta r)] @ rest)))"

text \<open>\<open>_frame_to_observations\<close>; the conversion of the list to float32 is not modelled.\<close>

definition frame_to_observations :: "config \<Rightarrow> state \<Rightarrow> error + real list" where
  "frame_to_observations cfg s =
     (let f = frame s;
          observation = [norm_pos cfg (ball_x (ball f)), norm_pos cfg (ball_y (ball f)),
                         norm_v cfg (ball_v_x (ball f)), norm_v cfg (ball_v_y (ball f))]
      in case blue_observations cfg f [0..<n_robots_blue cfg] of
           Inl e \<Rightarrow> Inl e
         | Inr blue \<Rightarrow>
             (case yellow_observations cfg f [0..<n_robots_yellow cfg] of
                Inl e \<Rightarrow> Inl e
              | Inr yel \<Rightarrow> Inr (observation @ blue @ yel)))"

subsection \<open>reset and step\<close>

text \<open>
  \<open>VSSBaseEnv.step\<close> and \<open>VSSBaseEnv.reset\<close> are code of the library rsoccer_gym. Of
  \<open>step\<close> the model keeps what the class above relies on: it builds the commands with
  \<open>_get_commands\<close>, sends them to the simulator and keeps them in \<open>sent_commands\<close>,
  keeps the frame it held as \<open>last_frame\<close>, takes the new \<open>frame\<close> from the simulator,
  and returns the results of \<open>_frame_to_observations\<close> and
  \<open>_calculate_reward_and_done\<close>. The frame of the simulator after the commands is an
  input, \<open>sim\<close>. A state of the model holds a frame, as the environment does from
  \<open>reset\<close> on.
\<close>

definition base_step ::
  "config \<Rightarrow> action \<Rightarrow> (nat \<Rightarrow> action) \<Rightarrow> Frame \<Rightarrow> state \<Rightarrow>
   error + ((real list \<times> npfloat list \<times> bool) \<times> state)" where
  "base_step cfg acts ou sim s =
     (case get_commands cfg acts ou s of
        Inl e \<Rightarrow> Inl e
      | Inr (commands, s1) \<Rightarrow>
          (let s2 = s1\<lparr>sent_commands := Some commands,
                        last_frame := Some (frame s1), frame := sim\<rparr>
           in case frame_to_observations cfg s2 of
                Inl e \<Rightarrow> Inl e
              | Inr observation \<Rightarrow>
                  (case calculate_reward_and_done cfg s2 of
                     Inl e \<Rightarrow> Inl e
                   | Inr (reward, done, s3) \<Rightarrow> Inr ((observation, reward, done), s3))))"

text \<open>The reward that \<open>step\<close> returns: the vector, or the weighted scalar.\<close>

datatype reward = Vector "npfloat list" | Scalar npfloat

text \<open>
  \<open>(strat_reward * self.ori_weights).sum()\<close>; both arrays have four elements wherever
  \<open>step\<close> computes it.
\<close>

definition weighted :: "npfloat list \<Rightarrow> npfloat" where
  "weighted strat_reward = np_sum (map2 np_mul strat_reward (map Num ori_weights))"

definition step ::
  "config \<Rightarrow> action \<Rightarrow> (nat \<Rightarrow> action) \<Rightarrow> Frame \<Rightarrow> state \<Rightarrow>
   error + ((real list \<times> reward \<times> bool \<times> info) \<times> state)" where
  "step cfg acts ou sim s =
     (case base_step cfg acts ou sim s of
        Inl e \<Rightarrow> Inl e
      | Inr ((observation, strat_reward, done), s1) \<Rightarrow>
          (let original_reward = weighted strat_reward;
               reward = (if \<not> stratified cfg then Scalar original_reward
                         else Vector strat_reward)
           in case cumulative_reward_info s1 of
                None \<Rightarrow> Inl TypeError
              | Some c \<Rightarrow>
                  if length strat_reward \<le> 3 then Inl IndexError
                  else
                    (let c1 = c\<lparr>Original_reward := np_add (Original_reward c) original_reward\<rparr>;
                         c2 = c1\<lparr>goal_blue := Some (if np_eq (strat_reward ! 3) 1 then 1 else 0)\<rparr>;
                         c3 = c2\<lparr>goal_yellow :=
                                   Some (if np_eq (strat_reward ! 3) (- 1) then 1 else 0)\<rparr>
                     in Inr ((observation, reward, done, c3),
                             s1\<lparr>cumulative_reward_info := Some c3\<rparr>))))"

text \<open>
  \<open>reset\<close>: the three attributes of this class are cleared; the base class (section 4.7 of
  the specification) clears the previous frame and the commands and takes the first
  frame from the simulator, an input here. The noise sources are outside the model.
\<close>

definition reset :: "config \<Rightarrow> Frame \<Rightarrow> state \<Rightarrow> error + (real list \<times> state)" where
  "reset cfg f0 s =
     (let s1 = s\<lparr>actions := None, cumulative_reward_info := None,
                  previous_ball_potential := None\<rparr>;
          s2 = s1\<lparr>last_frame := None, sent_commands := None, frame := f0\<rparr>
      in case frame_to_observations cfg s2 of
           Inl e \<Rightarrow> Inl e
         | Inr observation \<Rightarrow> Inr (observation, s2))"

text \<open>
  Consecutive steps of one episode: the inputs of each step in turn, the results of the
  steps in order, and the last state. An exception ends the run.
\<close>

record step_input =
  act :: action
  noise :: "nat \<Rightarrow> action"
  sim :: Frame

fun steps ::
  "config \<Rightarrow> step_input list \<Rightarrow> state \<Rightarrow>
   error + ((real list \<times> reward \<times> bool \<times> info) list \<times> state)" where
  "steps cfg [] s = Inr ([], s)"
| "steps cfg (i # ins) s =
     (case step cfg (act i) (noise i) (sim i) s of
        Inl e \<Rightarrow> Inl e
      | Inr (r, s1) \<Rightarrow>
          (case steps cfg ins s1 of
             Inl e \<Rightarrow> Inl e
           | Inr (rs, s2) \<Rightarrow> Inr (r # rs, s2)))"

text \<open>
  The vectors of components of the same steps: what \<open>_calculate_reward_and_done\<close>
  returned to each of them (the variable \<open>strat_reward\<close> of \<open>step\<close>).
\<close>

fun strat_rewards :: "config \<Rightarrow> step_input list \<Rightarrow> state \<Rightarrow> npfloat list list" where
  "strat_rewards cfg [] s = []"
| "strat_rewards cfg (i # ins) s =
     (case base_step cfg (act i) (noise i) (sim i) s of
        Inl e \<Rightarrow> []
      | Inr ((observation, strat_reward, done), s1) \<Rightarrow>
          (case step cfg (act i) (noise i) (sim i) s of
             Inl e \<Rightarrow> []
           | Inr (r, s2) \<Rightarrow> strat_reward # strat_rewards cfg ins s2))"

text \<open>
  The running totals of a state: those of the dictionary, or the zeros that
  \<open>_calculate_reward_and_done\<close> starts from when there is none yet.
\<close>

definition start_info :: "state \<Rightarrow> info" where
  "start_info s = (case cumulative_reward_info s of None \<Rightarrow> zero_info | Some c \<Rightarrow> c)"

subsection \<open>The placement sampler\<close>

text \<open>
  \<open>random.uniform(a, b)\<close> is \<open>a + (b - a) * random()\<close>. The values of \<open>random()\<close>, in
  the order in which the code draws them, are the list the sampler consumes.
\<close>

definition uniform :: "real \<Rightarrow> real \<Rightarrow> real \<Rightarrow> real" where
  "uniform a b u = a + (b - a) * u"

definition min_dist :: real where
  "min_dist = 0.1"

type_synonym point = "real \<times> real"

text \<open>
  Modelled from the spec: the class \<open>KDTree\<close> of the library rsoccer_gym, by the contract
  of section 6: \<open>insert(point)\<close>, and \<open>nearest(point) -> (point, distance)\<close>, the stored
  point at the least Euclidean distance. The tree is the list of the points inserted, in
  the order of insertion. What the library answers on an empty tree is not known
  (\<open>None\<close>); the sampler never asks, the ball is inserted first.
\<close>

definition insert_point :: "point \<Rightarrow> point list \<Rightarrow> point list" where
  "insert_point p places = places @ [p]"

definition distance :: "point \<Rightarrow> point \<Rightarrow> real" where
  "distance p q = linalg_norm (fst p - fst q, snd p - snd q)"

fun get_nearest :: "point list \<Rightarrow> point \<Rightarrow> (point \<times> real) option" where
  "get_nearest [] p = None"
| "get_nearest (q # qs) p =
     (case get_nearest qs p of
        None \<Rightarrow> Some (q, distance p q)
      | Some (q', d') \<Rightarrow> if distance p q \<le> d' then Some (q, distance p q) else Some (q', d'))"

text \<open>The local functions \<open>x()\<close>, \<open>y()\<close> and \<open>theta()\<close>, at the value drawn.\<close>

definition x_of :: "config \<Rightarrow> real \<Rightarrow> real" where
  "x_of cfg u = uniform (- (field_length cfg / 2) + 0.1) (field_length cfg / 2 - 0.1) u"

definition y_of :: "config \<Rightarrow> real \<Rightarrow> real" where
  "y_of cfg u = uniform (- (field_width cfg / 2) + 0.1) (field_width cfg / 2 - 0.1) u"

definition theta_of :: "real \<Rightarrow> real" where
  "theta_of u = uniform 0 360 u"

text \<open>
  \<open>pos = (x(), y()); while places.get_nearest(pos)[1] < min_dist: pos = (x(), y())\<close>.
  The loop has no bound in the source. On a finite list of draws it ends with a position
  and the draws left, or the draws run out first (\<open>None\<close>).
\<close>

fun sample_pos :: "config \<Rightarrow> point list \<Rightarrow> real list \<Rightarrow> (point \<times> real list) option" where
  "sample_pos cfg places (u1 # u2 # us) =
     (let pos = (x_of cfg u1, y_of cfg u2)
      in case get_nearest places pos of
           None \<Rightarrow> None
         | Some (q, d) \<Rightarrow> if d < min_dist then sample_pos cfg places us else Some (pos, us))"
| "sample_pos cfg places us = None"

text \<open>
  \<open>Robot(x=.., y=.., theta=..)\<close>: the other attributes keep the default of the library,
  written 0 and False here.
\<close>

definition placed_robot :: "point \<Rightarrow> real \<Rightarrow> Robot" where
  "placed_robot pos th =
     \<lparr>yellow = False, robot_id = 0, robot_x = fst pos, robot_y = snd pos, theta = th,
      robot_v_x = 0, robot_v_y = 0, v_theta = 0, v_wheel0 = 0, v_wheel1 = 0\<rparr>"

text \<open>
  One of the two loops \<open>for i in range(n)\<close>: the robots placed so far, the tree and the
  draws are threaded through.
\<close>

fun place_robots ::
  "config \<Rightarrow> nat list \<Rightarrow> (nat \<rightharpoonup> Robot) \<Rightarrow> point list \<Rightarrow> real list \<Rightarrow>
   ((nat \<rightharpoonup> Robot) \<times> point list \<times> real list) option" where
  "place_robots cfg [] robots places us = Some (robots, places, us)"
| "place_robots cfg (i # ids) robots places us =
     (case sample_pos cfg places us of
        None \<Rightarrow> None
      | Some (pos, us1) \<Rightarrow>
          (case us1 of
             [] \<Rightarrow> None
           | u # us2 \<Rightarrow>
               place_robots cfg ids (robots(i \<mapsto> placed_robot pos (theta_of u)))
                 (insert_point pos places) us2))"

text \<open>
  \<open>_get_initial_positions_frame\<close>, with the tree at the end and the draws left beside the
  frame it returns.
\<close>

definition initial_positions ::
  "config \<Rightarrow> real list \<Rightarrow> (Frame \<times> point list \<times> real list) option" where
  "initial_positions cfg us =
     (case us of
        u1 # u2 # us0 \<Rightarrow>
          (let b = \<lparr>ball_x = x_of cfg u1, ball_y = y_of cfg u2, ball_v_x = 0, ball_v_y = 0\<rparr>;
               places = insert_point (ball_x b, ball_y b) []
           in case place_robots cfg [0..<n_robots_blue cfg] Map.empty places us0 of
                None \<Rightarrow> None
              | Some (blue, places1, us1) \<Rightarrow>
                  (case place_robots cfg [0..<n_robots_yellow cfg] Map.empty places1 us1 of
                     None \<Rightarrow> None
                   | Some (yel, places2, us2) \<Rightarrow>
                       Some (\<lparr>ball = b, robots_blue = blue, robots_yellow = yel\<rparr>,
                             places2, us2)))
      | _ \<Rightarrow> None)"

definition get_initial_positions_frame :: "config \<Rightarrow> real list \<Rightarrow> Frame option" where
  "get_initial_positions_frame cfg us = map_option fst (initial_positions cfg us)"

text \<open>The position of a robot of a dictionary, when the robot is there.\<close>

definition robot_pos :: "(nat \<rightharpoonup> Robot) \<Rightarrow> nat \<Rightarrow> point option" where
  "robot_pos robots i = map_option (\<lambda>r. (robot_x r, robot_y r)) (robots i)"

text \<open>
  The two properties of a placement: a point is inside the rectangle the positions are
  drawn from, and two points are at least \<open>min_dist\<close> apart.
\<close>

definition in_field :: "config \<Rightarrow> point \<Rightarrow> bool" where
  "in_field cfg p \<longleftrightarrow>
     - (field_length cfg / 2) + 0.1 \<le> fst p \<and> fst p \<le> field_length cfg / 2 - 0.1 \<and>
     - (field_width cfg / 2) + 0.1 \<le> snd p \<and> snd p \<le> field_width cfg / 2 - 0.1"

definition far :: "point \<Rightarrow> point \<Rightarrow> bool" where
  "far p q \<longleftrightarrow> min_dist \<le> distance p q"

subsection \<open>Concrete inputs\<close>

definition example_config :: config where
  "example_config =
     \<lparr>stratified = True, n_robots_blue = 1, n_robots_yellow = 1,
      field_length = 3 / 2, field_width = 13 / 10, rbt_wheel_radius = 1 / 50, max_v = 1,
      norm_pos = (\<lambda>v. v), norm_v = (\<lambda>v. v), norm_w = (\<lambda>v. v)\<rparr>"

definition legacy_config :: config where
  "legacy_config = example_config\<lparr>stratified := False\<rparr>"

definition robot_at :: "real \<Rightarrow> real \<Rightarrow> real \<Rightarrow> Robot" where
  "robot_at px py vx =
     \<lparr>yellow = False, robot_id = 0, robot_x = px, robot_y = py, theta = 0,
      robot_v_x = vx, robot_v_y = 0, v_theta = 0, v_wheel0 = 0, v_wheel1 = 0\<rparr>"

text \<open>A frame with the ball at \<open>(bx, 0)\<close> and the learning robot at \<open>(rx, 0)\<close>, at speed \<open>(vx, 0)\<close>.\<close>

definition example_frame :: "real \<Rightarrow> real \<Rightarrow> real \<Rightarrow> Frame" where
  "example_frame bx rx vx =
     \<lparr>ball = \<lparr>ball_x = bx, ball_y = 0, ball_v_x = 0, ball_v_y = 0\<rparr>,
      robots_blue = [0 \<mapsto> robot_at rx 0 vx],
      robots_yellow = [0 \<mapsto> robot_at (1 / 2) (1 / 2) 0]\<rparr>"

text \<open>A state in which the last command of the learning robot is \<open>(40000, 0)\<close>.\<close>

definition example_state :: "Frame \<Rightarrow> Frame option \<Rightarrow> state" where
  "example_state f lf =
     \<lparr>frame = f, last_frame = lf,
      sent_commands = Some [command False 0 (40000, 0)], actions = None,
      cumulative_reward_info = None, previous_ball_potential = None\<rparr>"

text \<open>
  A step: the action \<open>(1, 1/100)\<close>, no noise, and the frame of the simulator, in which
  the learning robot at \<open>(1/2, 0)\<close> moves at \<open>(1, 0)\<close> away from the ball at the origin.
\<close>

definition example_sim :: Frame where
  "example_sim = example_frame 0 (1 / 2) 1"

definition example_input :: step_input where
  "example_input = \<lparr>act = (1, 1 / 100), noise = (\<lambda>k. (0, 0)), sim = example_sim\<rparr>"

text \<open>
  Values of \<open>random()\<close> for one placement: the ball, a first position of the blue robot
  that falls on the ball and is drawn again, its angle, and the yellow robot and its angle.
\<close>

definition example_draws :: "real list" where
  "example_draws = [1 / 2, 1 / 2, 1 / 2, 1 / 2, 0, 1 / 2, 1 / 4, 1, 1 / 2, 1 / 2]"

section \<open>Properties\<close>

subsection \<open>Auxiliary facts\<close>

lemma replicate4: "replicate 4 a = [a, a, a, a]"
  by (simp add: numeral_eq_Suc)

lemma np_add_zero [simp]: "np_add (Num 0) v = v"
  by (cases v) simp_all

lemma calculate_unfold:
  "components cfg s = Inr (g, m, gr, en) \<Longrightarrow>
   calculate_reward_and_done cfg s =
     Inr ([m, Num gr, Num en, Num (real_of_int g)], g \<noteq> 0,
          s\<lparr>cumulative_reward_info := Some
            ((case cumulative_reward_info s of None \<Rightarrow> zero_info | Some c \<Rightarrow> c)
              \<lparr>reward_move := np_add (reward_move
                  (case cumulative_reward_info s of None \<Rightarrow> zero_info | Some c \<Rightarrow> c)) m,
               reward_ball_grad := np_add (reward_ball_grad
                  (case cumulative_reward_info s of None \<Rightarrow> zero_info | Some c \<Rightarrow> c)) (Num gr),
               reward_energy := np_add (reward_energy
                  (case cumulative_reward_info s of None \<Rightarrow> zero_info | Some c \<Rightarrow> c)) (Num en),
               reward_goal := np_add (reward_goal
                  (case cumulative_reward_info s of None \<Rightarrow> zero_info | Some c \<Rightarrow> c))
                  (Num (real_of_int g))\<rparr>)\<rparr>)"
  by (simp add: calculate_reward_and_done_def replicate4 Let_def)

lemma calculate_components:
  assumes "calculate_reward_and_done cfg s = Inr (rewards, done, s')"
  obtains g m gr en where "components cfg s = Inr (g, m, gr, en)"
    and "rewards = [m, Num gr, Num en, Num (real_of_int g)]" and "done = (g \<noteq> 0)"
proof (cases "components cfg s")
  case (Inl e)
  with assms show ?thesis
    by (simp add: calculate_reward_and_done_def)
next
  case (Inr t)
  obtain g m gr en where t: "t = (g, m, gr, en)"
    by (cases t) auto
  from Inr t have c: "components cfg s = Inr (g, m, gr, en)"
    by simp
  from calculate_unfold [OF c] assms
  have "rewards = [m, Num gr, Num en, Num (real_of_int g)]" and "done = (g \<noteq> 0)"
    by simp_all
  with c that show ?thesis
    by blast
qed

lemma components_goal:
  "components cfg s = Inr (g, m, gr, en) \<Longrightarrow>
     g = (if ball_x (ball (frame s)) > field_length cfg / 2 then 1
          else if ball_x (ball (frame s)) < - (field_length cfg / 2) then - 1 else 0) \<and>
     (g \<noteq> 0 \<longrightarrow> m = Num 0 \<and> gr = 0 \<and> en = 0)"
  by (auto simp: components_def split: if_splits sum.splits)

lemma nth_four:
  "[a, b, c, d] ! 0 = a" "[a, b, c, d] ! 1 = b" "[a, b, c, d] ! 2 = c" "[a, b, c, d] ! 3 = d"
  by (simp_all add: numeral_eq_Suc)

lemma linalg_norm_axis [simp]: "linalg_norm (a, 0) = \<bar>a\<bar>"
  by (simp add: linalg_norm_def)

lemma linalg_norm_zero_iff: "linalg_norm v = 0 \<longleftrightarrow> fst v = 0 \<and> snd v = 0"
  by (simp add: linalg_norm_def sum_power2_eq_zero_iff)

subsection \<open>The reward decomposer\<close>

text \<open>
  C2: whenever \<open>_calculate_reward_and_done\<close> returns, the goal component is +1 if the ball's
  x is beyond half the field length, -1 if it is beyond minus half the field length, and 0
  otherwise; on a goal the move, gradient and energy components are 0; and the flag
  returned is true exactly when the goal component is not 0.
\<close>

theorem goal_component_and_done:
  assumes "calculate_reward_and_done cfg s = Inr (rewards, done, s')"
  shows "rewards ! 3 =
           Num (if ball_x (ball (frame s)) > field_length cfg / 2 then 1
                else if ball_x (ball (frame s)) < - (field_length cfg / 2) then - 1 else 0) \<and>
         (rewards ! 3 \<noteq> Num 0 \<longrightarrow>
            rewards ! 0 = Num 0 \<and> rewards ! 1 = Num 0 \<and> rewards ! 2 = Num 0) \<and>
         (done \<longleftrightarrow> rewards ! 3 \<noteq> Num 0)"
proof -
  from assms obtain g m gr en where c: "components cfg s = Inr (g, m, gr, en)"
    and r: "rewards = [m, Num gr, Num en, Num (real_of_int g)]" and d: "done = (g \<noteq> 0)"
    by (rule calculate_components)
  from components_goal [OF c] r d show ?thesis
    by (auto simp: nth_four)
qed

text \<open>On a goal the function returns: none of the shaping terms is computed.\<close>

lemma goal_total:
  assumes "ball_x (ball (frame s)) > field_length cfg / 2 \<or>
           ball_x (ball (frame s)) < - (field_length cfg / 2)"
  shows "\<exists>rewards s'. calculate_reward_and_done cfg s = Inr (rewards, True, s')"
proof -
  from assms have "components cfg s = Inr (1, Num 0, 0, 0) \<or>
      components cfg s = Inr (- 1, Num 0, 0, 0)"
    unfolding components_def by (simp only: if_True if_False split: if_split) blast
  then show ?thesis
    using calculate_unfold [of cfg s 1 "Num 0" 0 0] calculate_unfold [of cfg s "- 1" "Num 0" 0 0]
    by auto
qed

theorem goal_component_and_done_witness:
  "calculate_reward_and_done example_config (example_state (example_frame 1 0 0) None) =
     Inr ([Num 0, Num 0, Num 0, Num 1], True,
          example_state (example_frame 1 0 0) None
            \<lparr>cumulative_reward_info := Some (zero_info\<lparr>reward_goal := Num 1\<rparr>)\<rparr>) \<and>
   [Num 0, Num 0, Num 0, Num 1] ! 3 = Num 1 \<and>
   [Num 0, Num 0, Num 0, Num (1::real)] ! 0 = Num 0 \<and>
   [Num 0, Num 0, Num 0, Num (1::real)] ! 1 = Num 0 \<and>
   [Num 0, Num 0, Num 0, Num (1::real)] ! 2 = Num 0"
proof -
  have c: "components example_config (example_state (example_frame 1 0 0) None) =
      Inr (1, Num 0, 0, 0)"
    by (simp add: components_def example_config_def example_state_def example_frame_def)
  have h: "calculate_reward_and_done example_config (example_state (example_frame 1 0 0) None) =
     Inr ([Num 0, Num 0, Num 0, Num 1], True,
          example_state (example_frame 1 0 0) None
            \<lparr>cumulative_reward_info := Some (zero_info\<lparr>reward_goal := Num 1\<rparr>)\<rparr>)"
    using calculate_unfold [OF c]
    by (simp add: example_state_def zero_info_def)
  from goal_component_and_done [OF h] h show ?thesis
    by simp
qed

subsection \<open>The legacy weights\<close>

text \<open>The weights do not sum to 1.\<close>

theorem ori_weights_sum_not_one: "sum_list ori_weights \<noteq> 1"
  by (simp add: ori_weights_def)

text \<open>
  C4, as amended: the components of the fixed legacy weight vector
  \<open>[0.6600, 0.3200, 0.0053, 0.0080]\<close> sum to 0.9933.
\<close>

theorem ori_weights_sum: "sum_list ori_weights = 9933 / 10000"
  by (simp add: ori_weights_def)

subsection \<open>The energy penalty\<close>

text \<open>
  The energy component that \<open>_calculate_reward_and_done\<close> returns when no goal occurred: it
  is computed under the same test of the previous frame as the move and gradient terms.
\<close>

lemma calculate_energy:
  assumes "calculate_reward_and_done cfg s = Inr (rewards, done, s')"
    and "\<not> ball_x (ball (frame s)) > field_length cfg / 2"
    and "\<not> ball_x (ball (frame s)) < - (field_length cfg / 2)"
  shows "(last_frame s \<noteq> None \<longrightarrow>
            (\<exists>c cs. sent_commands s = Some (c # cs) \<and>
               rewards ! 2 = Num (- (\<bar>v_wheel0 c\<bar> + \<bar>v_wheel1 c\<bar>) / energy_scale))) \<and>
         (last_frame s = None \<longrightarrow> rewards ! 2 = Num 0)"
proof -
  from assms(1) obtain g m gr en where c: "components cfg s = Inr (g, m, gr, en)"
    and r: "rewards = [m, Num gr, Num en, Num (real_of_int g)]"
    by (rule calculate_components)
  have "last_frame s = None \<longrightarrow> en = 0"
    using c assms(2,3) by (auto simp: components_def)
  moreover have "last_frame s \<noteq> None \<longrightarrow>
      (\<exists>c cs. sent_commands s = Some (c # cs) \<and>
         en = - (\<bar>v_wheel0 c\<bar> + \<bar>v_wheel1 c\<bar>) / energy_scale)"
    using c assms(2,3)
    by (auto simp: components_def energy_penalty_def Let_def
          split: if_splits sum.splits option.splits list.splits)
  ultimately show ?thesis
    using r by (simp add: nth_four)
qed

text \<open>Without a goal the goal component is 0, and conversely.\<close>

lemma no_goal_iff:
  assumes "calculate_reward_and_done cfg s = Inr (rewards, done, s')"
  shows "rewards ! 3 = Num 0 \<longleftrightarrow>
         \<not> ball_x (ball (frame s)) > field_length cfg / 2 \<and>
         \<not> ball_x (ball (frame s)) < - (field_length cfg / 2)"
proof -
  from assms obtain g m gr en where c: "components cfg s = Inr (g, m, gr, en)"
    and r: "rewards = [m, Num gr, Num en, Num (real_of_int g)]"
    by (rule calculate_components)
  from components_goal [OF c] r show ?thesis
    by (auto simp: nth_four)
qed

text \<open>\<open>_calculate_reward_and_done\<close> changes the totals only.\<close>

lemma calculate_state:
  assumes "calculate_reward_and_done cfg s = Inr (rewards, done, s')"
  shows "sent_commands s' = sent_commands s \<and> frame s' = frame s \<and>
         last_frame s' = last_frame s"
proof -
  from assms obtain g m gr en where c: "components cfg s = Inr (g, m, gr, en)"
    by (rule calculate_components)
  from calculate_unfold [OF c] assms show ?thesis
    by auto
qed

subsection \<open>The move component\<close>

text \<open>
  What \<open>__move_reward\<close> computes when the robot is not on the ball: the component of the
  robot's velocity along the direction from the robot to the ball, over \<open>move_scale\<close>.
  The velocity is not normalised.
\<close>

lemma move_reward_value:
  assumes "robots_blue (frame s) 0 = Some r"
    and "robot_x r \<noteq> ball_x (ball (frame s)) \<or> robot_y r \<noteq> ball_y (ball (frame s))"
  shows "move_reward s =
     Inr (Num (((ball_x (ball (frame s)) - robot_x r) * robot_v_x r +
                (ball_y (ball (frame s)) - robot_y r) * robot_v_y r) /
               linalg_norm (ball_x (ball (frame s)) - robot_x r,
                            ball_y (ball (frame s)) - robot_y r) / move_scale))"
proof -
  have "linalg_norm (ball_x (ball (frame s)) - robot_x r, ball_y (ball (frame s)) - robot_y r) \<noteq> 0"
    using assms(2) by (auto simp: linalg_norm_zero_iff)
  then show ?thesis
    using assms(1) by (simp add: move_reward_def Let_def add_divide_distrib)
qed

text \<open>
  C5: a step with a previous frame and no goal on which the learning robot at \<open>(0, 0)\<close>
  moves at \<open>(1/2, 0)\<close> straight towards the ball at \<open>(1/2, 0)\<close>. The move component is
  1/240, the speed times the cosine over 120; the cosine similarity of the velocity and
  the vector from the robot to the ball, over 120, is 1/120.
\<close>

theorem move_reward_half_speed:
  "calculate_reward_and_done example_config
     (example_state (example_frame (1 / 2) 0 (1 / 2)) (Some (example_frame (1 / 2) 0 (1 / 2)))) =
     Inr ([Num (1 / 240), Num 0, Num (- 1), Num 0], False,
          example_state (example_frame (1 / 2) 0 (1 / 2)) (Some (example_frame (1 / 2) 0 (1 / 2)))
            \<lparr>cumulative_reward_info := Some
               (zero_info\<lparr>reward_move := Num (1 / 240), reward_energy := Num (- 1)\<rparr>)\<rparr>) \<and>
   cosine_similarity (1 / 2, 0) (1 / 2 - 0, 0 - 0) / move_scale = 1 / 120"
proof -
  let ?s = "example_state (example_frame (1 / 2) 0 (1 / 2)) (Some (example_frame (1 / 2) 0 (1 / 2)))"
  have m: "move_reward ?s = Inr (Num (1 / 240))"
    by (simp add: move_reward_def example_state_def example_frame_def robot_at_def
        move_scale_def)
  have bg: "ball_grad example_config ?s = Inr 0"
    by (simp add: ball_grad_def example_state_def example_frame_def example_config_def)
  have ep: "energy_penalty ?s = Inr (- 1)"
    by (simp add: energy_penalty_def example_state_def command_def energy_scale_def)
  have g: "\<not> ball_x (ball (frame ?s)) > field_length example_config / 2"
    "\<not> ball_x (ball (frame ?s)) < - (field_length example_config / 2)"
    by (simp_all add: example_state_def example_frame_def example_config_def)
  have l: "last_frame ?s \<noteq> None"
    by (simp add: example_state_def)
  have "components example_config ?s = Inr (0, Num (1 / 240), 0, - 1)"
    unfolding components_def
    by (simp only: g l if_True if_False not_False_eq_True m bg ep sum.case)
  from calculate_unfold [OF this]
  have "calculate_reward_and_done example_config ?s =
     Inr ([Num (1 / 240), Num 0, Num (- 1), Num 0], False,
          ?s\<lparr>cumulative_reward_info := Some
               (zero_info\<lparr>reward_move := Num (1 / 240), reward_energy := Num (- 1)\<rparr>)\<rparr>)"
    by (simp add: example_state_def zero_info_def)
  moreover have "cosine_similarity (1 / 2, 0) (1 / 2 - 0, 0 - 0) / move_scale = 1 / 120"
    by (simp add: cosine_similarity_def move_scale_def)
  ultimately show ?thesis
    by (rule conjI)
qed

text \<open>With no previous frame the move and the gradient components are 0.\<close>

lemma move_zero_without_last_frame:
  assumes "calculate_reward_and_done cfg s = Inr (rewards, done, s')" and "last_frame s = None"
  shows "rewards ! 0 = Num 0 \<and> rewards ! 1 = Num 0"
proof -
  from assms(1) obtain g m gr en where c: "components cfg s = Inr (g, m, gr, en)"
    and r: "rewards = [m, Num gr, Num en, Num (real_of_int g)]"
    by (rule calculate_components)
  from c assms(2) have "m = Num 0 \<and> gr = 0"
    by (auto simp: components_def split: if_splits)
  with r show ?thesis
    by (simp add: nth_four)
qed

text \<open>
  C9: when the learning robot is exactly at the ball's position, \<open>__move_reward\<close> divides
  the zero vector by its norm 0, with no guard, and returns nan; on a step with a previous
  frame and no goal that nan is the move component of the reward vector and the running
  total of the move component.
\<close>

theorem move_reward_nan:
  assumes "robots_blue (frame s) 0 = Some r"
    and "robot_x r = ball_x (ball (frame s))" and "robot_y r = ball_y (ball (frame s))"
  shows "move_reward s = Inr NaN \<and>
         (\<forall>rewards done s'.
            \<not> ball_x (ball (frame s)) > field_length cfg / 2 \<and>
            \<not> ball_x (ball (frame s)) < - (field_length cfg / 2) \<and>
            last_frame s \<noteq> None \<and>
            calculate_reward_and_done cfg s = Inr (rewards, done, s') \<longrightarrow>
            rewards ! 0 = NaN \<and>
            (\<exists>c. cumulative_reward_info s' = Some c \<and> reward_move c = NaN))"
proof -
  have m: "move_reward s = Inr NaN"
    using assms by (simp add: move_reward_def linalg_norm_def)
  have "rewards ! 0 = NaN \<and> (\<exists>c. cumulative_reward_info s' = Some c \<and> reward_move c = NaN)"
    if g: "\<not> ball_x (ball (frame s)) > field_length cfg / 2"
      "\<not> ball_x (ball (frame s)) < - (field_length cfg / 2)"
      and l: "last_frame s \<noteq> None"
      and h: "calculate_reward_and_done cfg s = Inr (rewards, d, s')"
    for rewards d s'
  proof -
    from h obtain g' m' gr en where c: "components cfg s = Inr (g', m', gr, en)"
      and r: "rewards = [m', Num gr, Num en, Num (real_of_int g')]"
      by (rule calculate_components)
    from c g l m have "m' = NaN"
      by (auto simp: components_def split: if_splits sum.splits)
    moreover have "np_add v NaN = NaN" for v
      by (cases v) simp_all
    ultimately show ?thesis
      using r calculate_unfold [OF c] h by (auto simp: nth_four)
  qed
  with m show ?thesis
    by blast
qed

theorem move_reward_nan_witness:
  "robots_blue (frame (example_state (example_frame 0 0 1) (Some (example_frame 0 0 1)))) 0 =
     Some (robot_at 0 0 1) \<and>
   robot_x (robot_at 0 0 1) =
     ball_x (ball (frame (example_state (example_frame 0 0 1) (Some (example_frame 0 0 1))))) \<and>
   robot_y (robot_at 0 0 1) =
     ball_y (ball (frame (example_state (example_frame 0 0 1) (Some (example_frame 0 0 1))))) \<and>
   move_reward (example_state (example_frame 0 0 1) (Some (example_frame 0 0 1))) = Inr NaN \<and>
   calculate_reward_and_done example_config
     (example_state (example_frame 0 0 1) (Some (example_frame 0 0 1))) =
     Inr ([NaN, Num 0, Num (- 1), Num 0], False,
          example_state (example_frame 0 0 1) (Some (example_frame 0 0 1))
            \<lparr>cumulative_reward_info := Some
               (zero_info\<lparr>reward_move := NaN, reward_energy := Num (- 1)\<rparr>)\<rparr>)"
proof -
  let ?s = "example_state (example_frame 0 0 1) (Some (example_frame 0 0 1))"
  have a: "robots_blue (frame ?s) 0 = Some (robot_at 0 0 1)"
    and b: "robot_x (robot_at 0 0 1) = ball_x (ball (frame ?s))"
    and c: "robot_y (robot_at 0 0 1) = ball_y (ball (frame ?s))"
    by (simp_all add: example_state_def example_frame_def robot_at_def)
  note n = move_reward_nan [OF a b c, of example_config]
  then have m: "move_reward ?s = Inr NaN"
    by blast
  have bg: "ball_grad example_config ?s = Inr 0"
    by (simp add: ball_grad_def example_state_def example_frame_def example_config_def)
  have ep: "energy_penalty ?s = Inr (- 1)"
    by (simp add: energy_penalty_def example_state_def command_def energy_scale_def)
  have g: "\<not> ball_x (ball (frame ?s)) > field_length example_config / 2"
    "\<not> ball_x (ball (frame ?s)) < - (field_length example_config / 2)"
    by (simp_all add: example_state_def example_frame_def example_config_def)
  have l: "last_frame ?s \<noteq> None"
    by (simp add: example_state_def)
  have "components example_config ?s = Inr (0, NaN, 0, - 1)"
    unfolding components_def
    by (simp only: g l if_True if_False not_False_eq_True m bg ep sum.case)
  from calculate_unfold [OF this]
  have "calculate_reward_and_done example_config ?s =
     Inr ([NaN, Num 0, Num (- 1), Num 0], False,
          ?s\<lparr>cumulative_reward_info := Some
               (zero_info\<lparr>reward_move := NaN, reward_energy := Num (- 1)\<rparr>)\<rparr>)"
    by (simp add: example_state_def zero_info_def)
  with a b c m show ?thesis
    by simp
qed

subsection \<open>The actuator mapper\<close>

lemma np_clip_abs: "0 \<le> m \<Longrightarrow> \<bar>np_clip v (- m) m\<bar> \<le> m"
  unfolding np_clip_def by linarith

lemma np_clip_id: "\<bar>v\<bar> \<le> m \<Longrightarrow> np_clip v (- m) m = v"
  unfolding np_clip_def by linarith

text \<open>
  C7: for an action with both components in \<open>[-1, 1]\<close> (the maximal speed not negative and
  the wheel radius positive), \<open>_actions_to_v_wheels\<close> returns two wheel speeds of absolute
  value at most \<open>max_v / rbt_wheel_radius\<close>, and a scaled value of absolute value below the
  dead zone 0.05 gives the wheel speed 0.
\<close>

theorem wheel_speeds_bounded:
  assumes "- 1 \<le> fst acts" and "fst acts \<le> 1" and "- 1 \<le> snd acts" and "snd acts \<le> 1"
    and "0 \<le> max_v cfg" and "0 < rbt_wheel_radius cfg"
  shows "\<exists>left right.
           actions_to_v_wheels cfg acts = Inr (left, right) \<and>
           \<bar>left\<bar> \<le> max_v cfg / rbt_wheel_radius cfg \<and>
           \<bar>right\<bar> \<le> max_v cfg / rbt_wheel_radius cfg \<and>
           (\<bar>fst acts * max_v cfg\<bar> < v_wheel_deadzone \<longrightarrow> left = 0) \<and>
           (\<bar>snd acts * max_v cfg\<bar> < v_wheel_deadzone \<longrightarrow> right = 0)"
proof -
  define m where "m = max_v cfg"
  define rad where "rad = rbt_wheel_radius cfg"
  define dz where "dz v = (if - v_wheel_deadzone < v \<and> v < v_wheel_deadzone then 0 else v)"
    for v :: real
  have eq: "actions_to_v_wheels cfg acts =
      Inr (dz (np_clip (fst acts * m) (- m) m) / rad, dz (np_clip (snd acts * m) (- m) m) / rad)"
    using assms(6) by (simp add: actions_to_v_wheels_def Let_def dz_def m_def rad_def)
  have m0: "0 \<le> m" and r0: "0 < rad"
    using assms(5,6) by (simp_all add: m_def rad_def)
  have bound: "\<bar>dz (np_clip v (- m) m) / rad\<bar> \<le> m / rad" for v
  proof -
    have "\<bar>dz (np_clip v (- m) m)\<bar> \<le> m"
      using np_clip_abs [OF m0, of v] m0 by (simp add: dz_def)
    then show ?thesis
      using r0 by (simp add: divide_right_mono)
  qed
  have zero: "dz (np_clip (a * m) (- m) m) / rad = 0"
    if "- 1 \<le> a" "a \<le> 1" "\<bar>a * m\<bar> < v_wheel_deadzone" for a
  proof -
    have "\<bar>a * m\<bar> \<le> m"
      using that(1,2) m0 by (simp add: abs_mult mult_left_le_one_le abs_le_iff)
    then have "np_clip (a * m) (- m) m = a * m"
      by (rule np_clip_id)
    with that(3) show ?thesis
      by (simp add: dz_def abs_less_iff)
  qed
  show ?thesis
    unfolding eq using bound zero [OF assms(1,2)] zero [OF assms(3,4)]
    by (simp add: m_def rad_def)
qed

theorem wheel_speeds_bounded_witness:
  "actions_to_v_wheels example_config (1, 1 / 100) = Inr (50, 0) \<and>
   \<bar>50 :: real\<bar> \<le> max_v example_config / rbt_wheel_radius example_config \<and>
   \<bar>1 / 100 * max_v example_config\<bar> < v_wheel_deadzone"
proof -
  have "\<exists>left right.
           actions_to_v_wheels example_config (1, 1 / 100) = Inr (left, right) \<and>
           \<bar>left\<bar> \<le> max_v example_config / rbt_wheel_radius example_config \<and>
           \<bar>right\<bar> \<le> max_v example_config / rbt_wheel_radius example_config \<and>
           (\<bar>fst (1 :: real, 1 / 100 :: real) * max_v example_config\<bar> < v_wheel_deadzone
              \<longrightarrow> left = 0) \<and>
           (\<bar>snd (1 :: real, 1 / 100 :: real) * max_v example_config\<bar> < v_wheel_deadzone
              \<longrightarrow> right = 0)"
    by (rule wheel_speeds_bounded) (simp_all add: example_config_def)
  moreover have "actions_to_v_wheels example_config (1, 1 / 100) = Inr (50, 0)"
    by (simp add: actions_to_v_wheels_def example_config_def np_clip_def v_wheel_deadzone_def)
  ultimately show ?thesis
    by (simp add: example_config_def v_wheel_deadzone_def)
qed

subsection \<open>The observation encoder\<close>

lemma length_blue_observations:
  "blue_observations cfg f ids = Inr obs \<Longrightarrow> length obs = 7 * length ids"
  by (induction ids arbitrary: obs) (auto split: option.splits sum.splits)

lemma length_yellow_observations:
  "yellow_observations cfg f ids = Inr obs \<Longrightarrow> length obs = 5 * length ids"
  by (induction ids arbitrary: obs) (auto split: option.splits sum.splits)

text \<open>
  C10: the vector that \<open>_frame_to_observations\<close> returns has length
  \<open>4 + 7 * n_robots_blue + 5 * n_robots_yellow\<close>; the declared shape of the observation
  space is 40 whatever the counts, and the two agree exactly when both counts are 3.
\<close>

theorem observation_length:
  assumes "frame_to_observations cfg s = Inr obs"
  shows "length obs = 4 + 7 * n_robots_blue cfg + 5 * n_robots_yellow cfg \<and>
         (length obs = observation_space_shape \<longleftrightarrow>
            n_robots_blue cfg = 3 \<and> n_robots_yellow cfg = 3)"
proof -
  from assms obtain blue yel
    where b: "blue_observations cfg (frame s) [0..<n_robots_blue cfg] = Inr blue"
      and y: "yellow_observations cfg (frame s) [0..<n_robots_yellow cfg] = Inr yel"
      and o: "length obs = 4 + length blue + length yel"
    by (auto simp: frame_to_observations_def Let_def split: sum.splits)
  from length_blue_observations [OF b] length_yellow_observations [OF y] o
  have len: "length obs = 4 + 7 * n_robots_blue cfg + 5 * n_robots_yellow cfg"
    by simp
  have "4 + 7 * b + 5 * y = 40 \<longleftrightarrow> b = 3 \<and> y = 3" for b y :: nat
    by presburger
  with len show ?thesis
    by (simp add: observation_space_shape_def)
qed

text \<open>The encoder returns when the frame holds every robot that the counts announce.\<close>

lemma blue_observations_total:
  "\<forall>i \<in> set ids. robots_blue f i \<noteq> None \<Longrightarrow> \<exists>obs. blue_observations cfg f ids = Inr obs"
  by (induction ids) auto

lemma yellow_observations_total:
  "\<forall>i \<in> set ids. robots_yellow f i \<noteq> None \<Longrightarrow> \<exists>obs. yellow_observations cfg f ids = Inr obs"
  by (induction ids) auto

lemma frame_to_observations_total:
  assumes "\<forall>i < n_robots_blue cfg. robots_blue (frame s) i \<noteq> None"
    and "\<forall>i < n_robots_yellow cfg. robots_yellow (frame s) i \<noteq> None"
  shows "\<exists>obs. frame_to_observations cfg s = Inr obs"
proof -
  from assms(1) obtain blue
    where "blue_observations cfg (frame s) [0..<n_robots_blue cfg] = Inr blue"
    using blue_observations_total [of "[0..<n_robots_blue cfg]" "frame s" cfg] by auto
  moreover from assms(2) obtain yel
    where "yellow_observations cfg (frame s) [0..<n_robots_yellow cfg] = Inr yel"
    using yellow_observations_total [of "[0..<n_robots_yellow cfg]" "frame s" cfg] by auto
  ultimately show ?thesis
    by (simp add: frame_to_observations_def Let_def)
qed

lemma example_observation:
  "frame_to_observations example_config (example_state (example_frame 0 (1 / 2) 1) lf) =
     Inr [0, 0, 0, 0, 1 / 2, 0, 0, 1, 1, 0, 0, 1 / 2, 1 / 2, 0, 0, 0]"
  by (simp add: frame_to_observations_def example_config_def example_state_def
      example_frame_def robot_at_def deg2rad_def)

theorem observation_length_witness:
  "frame_to_observations example_config (example_state (example_frame 0 (1 / 2) 1) None) =
     Inr [0, 0, 0, 0, 1 / 2, 0, 0, 1, 1, 0, 0, 1 / 2, 1 / 2, 0, 0, 0] \<and>
   length [0, 0, 0, 0, 1 / 2, 0, 0, 1, 1, 0, 0, 1 / 2, 1 / 2, 0, 0, 0 :: real] =
     4 + 7 * n_robots_blue example_config + 5 * n_robots_yellow example_config \<and>
   length [0, 0, 0, 0, 1 / 2, 0, 0, 1, 1, 0, 0, 1 / 2, 1 / 2, 0, 0, 0 :: real] \<noteq>
     observation_space_shape"
  using observation_length [OF example_observation [of None]] example_observation [of None]
  by (simp add: example_config_def)

subsection \<open>The reward of a step and the running totals\<close>

lemma calculate_info:
  assumes "calculate_reward_and_done cfg s = Inr (rewards, d, s')"
  shows "length rewards = 4 \<and>
         cumulative_reward_info s' = Some
           ((start_info s)
              \<lparr>reward_move := np_add (reward_move (start_info s)) (rewards ! 0),
               reward_ball_grad := np_add (reward_ball_grad (start_info s)) (rewards ! 1),
               reward_energy := np_add (reward_energy (start_info s)) (rewards ! 2),
               reward_goal := np_add (reward_goal (start_info s)) (rewards ! 3)\<rparr>)"
proof -
  from assms obtain g m gr en where c: "components cfg s = Inr (g, m, gr, en)"
    and r: "rewards = [m, Num gr, Num en, Num (real_of_int g)]"
    by (rule calculate_components)
  from calculate_unfold [OF c] assms r show ?thesis
    by (auto simp: nth_four start_info_def)
qed

lemma get_commands_info:
  "get_commands cfg a ou s = Inr (cs, s0) \<Longrightarrow>
   cumulative_reward_info s0 = cumulative_reward_info s"
  by (auto simp: get_commands_def split: sum.splits)

text \<open>The first command is that of the learning robot, at the wheel speeds of its action.\<close>

lemma get_commands_first:
  "get_commands cfg a ou s = Inr (cs, s0) \<Longrightarrow>
   frame s0 = frame s \<and>
   (\<exists>v rest. actions_to_v_wheels cfg a = Inr v \<and> cs = command False 0 v # rest)"
  by (auto simp: get_commands_def split: sum.splits)

text \<open>
  The base step, taken apart: the commands, and the state on which
  \<open>_calculate_reward_and_done\<close> runs, whose previous frame is the frame held before.
\<close>

lemma base_step_parts:
  assumes "base_step cfg a ou sm s = Inr ((obs, strat, d), s1)"
  obtains cs s0 where "get_commands cfg a ou s = Inr (cs, s0)"
    and "calculate_reward_and_done cfg
           (s0\<lparr>sent_commands := Some cs, last_frame := Some (frame s0), frame := sm\<rparr>) =
         Inr (strat, d, s1)"
  using assms
  by (auto simp: base_step_def Let_def split: sum.splits prod.splits)

lemma base_step_calculate:
  assumes "base_step cfg a ou sm s = Inr ((obs, strat, d), s1)"
  shows "\<exists>s2. cumulative_reward_info s2 = cumulative_reward_info s \<and>
              calculate_reward_and_done cfg s2 = Inr (strat, d, s1)"
proof -
  from assms obtain cs s0 where g: "get_commands cfg a ou s = Inr (cs, s0)"
    and c: "calculate_reward_and_done cfg
              (s0\<lparr>sent_commands := Some cs, last_frame := Some (frame s0), frame := sm\<rparr>) =
            Inr (strat, d, s1)"
    by (rule base_step_parts)
  from get_commands_info [OF g]
  have "cumulative_reward_info
          (s0\<lparr>sent_commands := Some cs, last_frame := Some (frame s0), frame := sm\<rparr>) =
        cumulative_reward_info s"
    by simp
  with c show ?thesis
    by blast
qed

lemma base_step_frames:
  assumes "base_step cfg a ou sm s = Inr ((obs, strat, d), s1)"
  shows "frame s1 = sm \<and> last_frame s1 = Some (frame s)"
proof -
  from assms obtain cs s0 where g: "get_commands cfg a ou s = Inr (cs, s0)"
    and c: "calculate_reward_and_done cfg
              (s0\<lparr>sent_commands := Some cs, last_frame := Some (frame s0), frame := sm\<rparr>) =
            Inr (strat, d, s1)"
    by (rule base_step_parts)
  from calculate_state [OF c] get_commands_first [OF g] show ?thesis
    by simp
qed

lemma base_step_info:
  assumes "base_step cfg a ou sm s = Inr ((obs, strat, d), s1)"
  shows "length strat = 4 \<and>
         cumulative_reward_info s1 = Some
           ((start_info s)
              \<lparr>reward_move := np_add (reward_move (start_info s)) (strat ! 0),
               reward_ball_grad := np_add (reward_ball_grad (start_info s)) (strat ! 1),
               reward_energy := np_add (reward_energy (start_info s)) (strat ! 2),
               reward_goal := np_add (reward_goal (start_info s)) (strat ! 3)\<rparr>)"
proof -
  from base_step_calculate [OF assms] obtain s2
    where e: "cumulative_reward_info s2 = cumulative_reward_info s"
      and c: "calculate_reward_and_done cfg s2 = Inr (strat, d, s1)"
    by blast
  from e have "start_info s2 = start_info s"
    by (simp add: start_info_def)
  with calculate_info [OF c] show ?thesis
    by simp
qed

lemma weighted_four:
  "length v = 4 \<Longrightarrow>
   weighted v =
     np_add (np_add (np_add (np_add (Num 0) (np_mul (v ! 0) (Num (ori_weights ! 0))))
                            (np_mul (v ! 1) (Num (ori_weights ! 1))))
                    (np_mul (v ! 2) (Num (ori_weights ! 2))))
            (np_mul (v ! 3) (Num (ori_weights ! 3)))"
  by (cases v rule: list.exhaust; simp)
     (auto simp: weighted_def np_sum_def ori_weights_def length_Suc_conv numeral_eq_Suc)

lemma step_unfold:
  assumes "base_step cfg a ou sm s = Inr ((obs, strat, d), s1)"
  shows "\<exists>c. cumulative_reward_info s1 = Some c \<and>
     step cfg a ou sm s =
       Inr ((obs, (if stratified cfg then Vector strat else Scalar (weighted strat)), d,
             c\<lparr>Original_reward := np_add (Original_reward c) (weighted strat),
               goal_blue := Some (if np_eq (strat ! 3) 1 then 1 else 0),
               goal_yellow := Some (if np_eq (strat ! 3) (- 1) then 1 else 0)\<rparr>),
            s1\<lparr>cumulative_reward_info := Some
               (c\<lparr>Original_reward := np_add (Original_reward c) (weighted strat),
                  goal_blue := Some (if np_eq (strat ! 3) 1 then 1 else 0),
                  goal_yellow := Some (if np_eq (strat ! 3) (- 1) then 1 else 0)\<rparr>)\<rparr>)"
  using base_step_info [OF assms] assms by (auto simp: step_def Let_def)

text \<open>
  C1: when the base step returns the vector \<open>strat\<close> of the four components (what
  \<open>_calculate_reward_and_done\<close> returned on that step), \<open>step\<close> returns, with the same
  observation and flag, the vector itself in stratified mode and in legacy mode the scalar
  \<open>weighted strat\<close>, the sum of the products of the four components with the four weights
  of \<open>ori_weights\<close>.
\<close>

theorem step_reward:
  assumes "base_step cfg a ou sm s = Inr ((obs, strat, d), s1)"
  shows "(\<exists>s2. calculate_reward_and_done cfg s2 = Inr (strat, d, s1)) \<and>
         (\<exists>inf s'. step cfg a ou sm s =
            Inr ((obs, (if stratified cfg then Vector strat else Scalar (weighted strat)), d, inf),
                 s')) \<and>
         length strat = 4 \<and>
         weighted strat =
           np_add (np_add (np_add (np_add (Num 0) (np_mul (strat ! 0) (Num (ori_weights ! 0))))
                                  (np_mul (strat ! 1) (Num (ori_weights ! 1))))
                          (np_mul (strat ! 2) (Num (ori_weights ! 2))))
                  (np_mul (strat ! 3) (Num (ori_weights ! 3)))"
proof -
  from base_step_info [OF assms] have l: "length strat = 4"
    by simp
  from base_step_calculate [OF assms] step_unfold [OF assms] l weighted_four [OF l]
  show ?thesis
    by blast
qed

lemma example_commands:
  "\<exists>s0. get_commands (example_config\<lparr>stratified := b\<rparr>) (1, 1 / 100) (\<lambda>k. (0, 0)) s =
     Inr ([command False 0 (50, 0), command True 0 (0, 0)], s0) \<and> frame s0 = frame s"
  by (simp add: get_commands_def actions_to_v_wheels_def example_config_def np_clip_def
      v_wheel_deadzone_def)

text \<open>The example step from any state whose frame has the ball at the origin.\<close>

lemma example_base_step:
  assumes "ball_x (ball (frame s)) = 0" and "ball_y (ball (frame s)) = 0"
  shows "\<exists>s1. base_step (example_config\<lparr>stratified := b\<rparr>) (1, 1 / 100) (\<lambda>k. (0, 0))
               example_sim s =
     Inr (([0, 0, 0, 0, 1 / 2, 0, 0, 1, 1, 0, 0, 1 / 2, 1 / 2, 0, 0, 0],
           [Num (- 1 / 120), Num 0, Num (- 1 / 800), Num 0], False), s1)"
proof -
  let ?cfg = "example_config\<lparr>stratified := b\<rparr>"
  from example_commands obtain s0
    where gc: "get_commands ?cfg (1, 1 / 100) (\<lambda>k. (0, 0)) s =
      Inr ([command False 0 (50, 0), command True 0 (0, 0)], s0)"
      and fr: "frame s0 = frame s"
    by blast
  define s2 where "s2 = s0\<lparr>sent_commands := Some [command False 0 (50, 0), command True 0 (0, 0)],
       last_frame := Some (frame s0), frame := example_sim\<rparr>"
  have o: "frame_to_observations ?cfg s2 =
      Inr [0, 0, 0, 0, 1 / 2, 0, 0, 1, 1, 0, 0, 1 / 2, 1 / 2, 0, 0, 0]"
    by (simp add: frame_to_observations_def example_config_def s2_def example_sim_def
        example_frame_def robot_at_def deg2rad_def)
  have m: "move_reward s2 = Inr (Num (- 1 / 120))"
    by (simp add: move_reward_def s2_def example_sim_def example_frame_def robot_at_def
        move_scale_def)
  have bg: "ball_grad ?cfg s2 = Inr 0"
    using assms fr
    by (simp add: ball_grad_def s2_def example_sim_def example_frame_def example_config_def)
  have ep: "energy_penalty s2 = Inr (- 1 / 800)"
    by (simp add: energy_penalty_def s2_def command_def energy_scale_def)
  have g: "\<not> ball_x (ball (frame s2)) > field_length ?cfg / 2"
    "\<not> ball_x (ball (frame s2)) < - (field_length ?cfg / 2)"
    by (simp_all add: s2_def example_sim_def example_frame_def example_config_def)
  have l: "last_frame s2 \<noteq> None"
    by (simp add: s2_def)
  have "components ?cfg s2 = Inr (0, Num (- 1 / 120), 0, - 1 / 800)"
    unfolding components_def
    by (simp only: g l if_True if_False not_False_eq_True m bg ep sum.case)
  from calculate_unfold [OF this] obtain s3 where
    "calculate_reward_and_done ?cfg s2 =
       Inr ([Num (- 1 / 120), Num 0, Num (- 1 / 800), Num 0], False, s3)"
    by simp
  with o show ?thesis
    unfolding base_step_def gc
    by (simp add: s2_def [symmetric])
qed

lemma example_state_ball:
  "ball_x (ball (frame (example_state (example_frame 0 rx vx) lf))) = 0"
  "ball_y (ball (frame (example_state (example_frame 0 rx vx) lf))) = 0"
  by (simp_all add: example_state_def example_frame_def)

theorem step_reward_witness:
  "\<exists>s1 inf s'.
     base_step legacy_config (1, 1 / 100) (\<lambda>k. (0, 0)) example_sim
       (example_state (example_frame 0 (1 / 2) 0) None) =
       Inr (([0, 0, 0, 0, 1 / 2, 0, 0, 1, 1, 0, 0, 1 / 2, 1 / 2, 0, 0, 0],
             [Num (- 1 / 120), Num 0, Num (- 1 / 800), Num 0], False), s1) \<and>
     step legacy_config (1, 1 / 100) (\<lambda>k. (0, 0)) example_sim
       (example_state (example_frame 0 (1 / 2) 0) None) =
       Inr (([0, 0, 0, 0, 1 / 2, 0, 0, 1, 1, 0, 0, 1 / 2, 1 / 2, 0, 0, 0],
             Scalar (Num (- (66 / 100) / 120 - (53 / 10000) / 800)), False, inf), s')"
proof -
  from example_base_step [OF example_state_ball, of False]
  obtain s1 where b: "base_step legacy_config (1, 1 / 100) (\<lambda>k. (0, 0)) example_sim
       (example_state (example_frame 0 (1 / 2) 0) None) =
       Inr (([0, 0, 0, 0, 1 / 2, 0, 0, 1, 1, 0, 0, 1 / 2, 1 / 2, 0, 0, 0],
             [Num (- 1 / 120), Num 0, Num (- 1 / 800), Num 0], False), s1)"
    unfolding legacy_config_def by blast
  have n: "\<not> stratified legacy_config"
    by (simp add: legacy_config_def example_config_def)
  from step_reward [OF b] n b show ?thesis
    by (auto simp: ori_weights_def nth_four)
qed


text \<open>A step leaves the frame of the simulator in the state.\<close>

lemma step_frame:
  assumes "step cfg a ou sm s = Inr (r, s')"
  shows "frame s' = sm"
proof (cases "base_step cfg a ou sm s")
  case (Inl e)
  with assms show ?thesis
    by (simp add: step_def)
next
  case (Inr t)
  obtain obs strat d s1 where t: "t = ((obs, strat, d), s1)"
    by (cases t) auto
  from Inr t have b: "base_step cfg a ou sm s = Inr ((obs, strat, d), s1)"
    by simp
  from step_unfold [OF b] assms base_step_frames [OF b] show ?thesis
    by auto
qed

text \<open>\<open>reset\<close> leaves no totals and no previous frame.\<close>

lemma reset_clears:
  "reset cfg f0 s = Inr (observation, s') \<Longrightarrow>
   cumulative_reward_info s' = None \<and> last_frame s' = None \<and> frame s' = f0"
  by (auto simp: reset_def Let_def split: sum.splits)

subsection \<open>The energy penalty of a step\<close>

text \<open>
  C3: on every step whose goal component is 0 (no goal occurred), the energy component of
  the vector is minus the sum of the absolute values of the two wheel speeds of the command
  that this step sent to the learning robot (the first of \<open>sent_commands\<close>, computed from
  the step's action), over the energy scale. The previous frame that the computation asks
  for is the frame held before the step, so this holds from the first step after
  \<open>reset\<close> on.
\<close>

theorem step_energy_component:
  assumes "base_step cfg a ou sm s = Inr ((obs, strat, d), s1)" and "strat ! 3 = Num 0"
  shows "\<exists>c cs. sent_commands s1 = Some (c # cs) \<and>
           actions_to_v_wheels cfg a = Inr (v_wheel0 c, v_wheel1 c) \<and>
           strat ! 2 = Num (- (\<bar>v_wheel0 c\<bar> + \<bar>v_wheel1 c\<bar>) / energy_scale)"
proof -
  from assms(1) obtain cs s0 where g: "get_commands cfg a ou s = Inr (cs, s0)"
    and c: "calculate_reward_and_done cfg
              (s0\<lparr>sent_commands := Some cs, last_frame := Some (frame s0), frame := sm\<rparr>) =
            Inr (strat, d, s1)"
    by (rule base_step_parts)
  let ?s2 = "s0\<lparr>sent_commands := Some cs, last_frame := Some (frame s0), frame := sm\<rparr>"
  from get_commands_first [OF g] obtain v rest
    where v: "actions_to_v_wheels cfg a = Inr v" and cs: "cs = command False 0 v # rest"
    by blast
  from no_goal_iff [OF c] assms(2)
  have ng: "\<not> ball_x (ball (frame ?s2)) > field_length cfg / 2"
    "\<not> ball_x (ball (frame ?s2)) < - (field_length cfg / 2)"
    by simp_all
  have "last_frame ?s2 \<noteq> None"
    by simp
  with calculate_energy [OF c ng] cs
  have "strat ! 2 =
      Num (- (\<bar>v_wheel0 (command False 0 v)\<bar> + \<bar>v_wheel1 (command False 0 v)\<bar>) / energy_scale)"
    by simp
  moreover from calculate_state [OF c] cs
  have "sent_commands s1 = Some (command False 0 v # rest)"
    by simp
  moreover from v
  have "actions_to_v_wheels cfg a =
      Inr (v_wheel0 (command False 0 v), v_wheel1 (command False 0 v))"
    by (simp add: command_def)
  ultimately show ?thesis
    by blast
qed

text \<open>The first step after \<open>reset\<close>, with the action \<open>(1, 1/100)\<close>: wheel speeds \<open>(50, 0)\<close>.\<close>

theorem step_energy_component_witness:
  "\<exists>obs0 s0 obs s1.
     reset example_config (example_frame 0 (1 / 2) 0)
       (example_state (example_frame 0 (1 / 2) 0) None) = Inr (obs0, s0) \<and>
     last_frame s0 = None \<and>
     base_step example_config (1, 1 / 100) (\<lambda>k. (0, 0)) example_sim s0 =
       Inr ((obs, [Num (- 1 / 120), Num 0, Num (- 1 / 800), Num 0], False), s1) \<and>
     [Num (- 1 / 120), Num 0, Num (- 1 / 800), Num 0] ! 3 = Num 0 \<and>
     actions_to_v_wheels example_config (1, 1 / 100) = Inr (50, 0) \<and>
     [Num (- 1 / 120), Num 0, Num (- 1 / 800), Num 0] ! 2 =
       Num (- (\<bar>50\<bar> + \<bar>0\<bar>) / energy_scale)"
proof -
  let ?s = "example_state (example_frame 0 (1 / 2) 0) None"
  have cfg: "example_config\<lparr>stratified := True\<rparr> = example_config"
    by (simp add: example_config_def)
  from frame_to_observations_total [of example_config
      "?s\<lparr>actions := None, cumulative_reward_info := None, previous_ball_potential := None,
          last_frame := None, sent_commands := None, frame := example_frame 0 (1 / 2) 0\<rparr>"]
  obtain obs0 s0
    where r: "reset example_config (example_frame 0 (1 / 2) 0) ?s = Inr (obs0, s0)"
    by (auto simp: reset_def Let_def example_config_def example_frame_def)
  from reset_clears [OF r] have l: "last_frame s0 = None"
    and f: "frame s0 = example_frame 0 (1 / 2) 0"
    by simp_all
  from f have o: "ball_x (ball (frame s0)) = 0" "ball_y (ball (frame s0)) = 0"
    by (simp_all add: example_frame_def)
  from example_base_step [OF o, of True] obtain obs s1
    where b: "base_step example_config (1, 1 / 100) (\<lambda>k. (0, 0)) example_sim s0 =
       Inr ((obs, [Num (- 1 / 120), Num 0, Num (- 1 / 800), Num 0], False), s1)"
    unfolding cfg by blast
  have z: "[Num (- 1 / 120), Num 0, Num (- 1 / 800), Num 0] ! 3 = Num 0"
    by (simp add: nth_four)
  have w: "actions_to_v_wheels example_config (1, 1 / 100) = Inr (50, 0)"
    by (simp add: actions_to_v_wheels_def example_config_def np_clip_def v_wheel_deadzone_def)
  from step_energy_component [OF b z] w
  have "[Num (- 1 / 120), Num 0, Num (- 1 / 800), Num 0] ! 2 =
       Num (- (\<bar>50\<bar> + \<bar>0\<bar>) / energy_scale)"
    by auto
  with r l b z w show ?thesis
    by blast
qed

lemma step_totals:
  assumes "step cfg a ou sm s = Inr (r, s')"
  obtains obs strat d s1 where "base_step cfg a ou sm s = Inr ((obs, strat, d), s1)"
    and "cumulative_reward_info s' = Some (snd (snd (snd r)))"
    and "reward_move (start_info s') = np_add (reward_move (start_info s)) (strat ! 0)"
    and "reward_ball_grad (start_info s') = np_add (reward_ball_grad (start_info s)) (strat ! 1)"
    and "reward_energy (start_info s') = np_add (reward_energy (start_info s)) (strat ! 2)"
    and "reward_goal (start_info s') = np_add (reward_goal (start_info s)) (strat ! 3)"
    and "Original_reward (start_info s') =
           np_add (Original_reward (start_info s)) (weighted strat)"
proof (cases "base_step cfg a ou sm s")
  case (Inl e)
  with assms show ?thesis
    by (simp add: step_def)
next
  case (Inr t)
  obtain obs strat d s1 where t: "t = ((obs, strat, d), s1)"
    by (cases t) auto
  from Inr t have b: "base_step cfg a ou sm s = Inr ((obs, strat, d), s1)"
    by simp
  from step_unfold [OF b] assms base_step_info [OF b]
  have "cumulative_reward_info s' = Some (snd (snd (snd r)))"
    and "reward_move (start_info s') = np_add (reward_move (start_info s)) (strat ! 0)"
    and "reward_ball_grad (start_info s') = np_add (reward_ball_grad (start_info s)) (strat ! 1)"
    and "reward_energy (start_info s') = np_add (reward_energy (start_info s)) (strat ! 2)"
    and "reward_goal (start_info s') = np_add (reward_goal (start_info s)) (strat ! 3)"
    and "Original_reward (start_info s') =
           np_add (Original_reward (start_info s)) (weighted strat)"
    by (auto simp: start_info_def)
  with b that show ?thesis
    by blast
qed

lemma steps_totals:
  "steps cfg ins s = Inr (rs, s') \<Longrightarrow>
   length (strat_rewards cfg ins s) = length ins \<and>
   length rs = length ins \<and>
   reward_move (start_info s') =
     foldl np_add (reward_move (start_info s)) (map (\<lambda>v. v ! 0) (strat_rewards cfg ins s)) \<and>
   reward_ball_grad (start_info s') =
     foldl np_add (reward_ball_grad (start_info s)) (map (\<lambda>v. v ! 1) (strat_rewards cfg ins s)) \<and>
   reward_energy (start_info s') =
     foldl np_add (reward_energy (start_info s)) (map (\<lambda>v. v ! 2) (strat_rewards cfg ins s)) \<and>
   reward_goal (start_info s') =
     foldl np_add (reward_goal (start_info s)) (map (\<lambda>v. v ! 3) (strat_rewards cfg ins s)) \<and>
   Original_reward (start_info s') =
     foldl np_add (Original_reward (start_info s)) (map weighted (strat_rewards cfg ins s))"
proof (induction ins arbitrary: s rs)
  case Nil
  then show ?case
    by simp
next
  case (Cons i ins)
  from Cons.prems obtain r s1 rs'
    where st: "step cfg (act i) (noise i) (sim i) s = Inr (r, s1)"
      and rest: "steps cfg ins s1 = Inr (rs', s')" and rs: "rs = r # rs'"
    by (auto split: sum.splits)
  from st obtain obs strat d s1' where
    b: "base_step cfg (act i) (noise i) (sim i) s = Inr ((obs, strat, d), s1')"
    and t: "reward_move (start_info s1) = np_add (reward_move (start_info s)) (strat ! 0)"
      "reward_ball_grad (start_info s1) = np_add (reward_ball_grad (start_info s)) (strat ! 1)"
      "reward_energy (start_info s1) = np_add (reward_energy (start_info s)) (strat ! 2)"
      "reward_goal (start_info s1) = np_add (reward_goal (start_info s)) (strat ! 3)"
      "Original_reward (start_info s1) =
         np_add (Original_reward (start_info s)) (weighted strat)"
    by (rule step_totals)
  have sr: "strat_rewards cfg (i # ins) s = strat # strat_rewards cfg ins s1"
    using b st by simp
  from Cons.IH [OF rest] show ?case
    unfolding sr rs by (simp add: t)
qed

lemma steps_last_info:
  "steps cfg ins s = Inr (rs, s') \<Longrightarrow> ins \<noteq> [] \<Longrightarrow>
   rs \<noteq> [] \<and> cumulative_reward_info s' = Some (snd (snd (snd (last rs))))"
proof (induction ins arbitrary: s rs)
  case Nil
  then show ?case
    by simp
next
  case (Cons i ins)
  from Cons.prems(1) obtain r s1 rs'
    where st: "step cfg (act i) (noise i) (sim i) s = Inr (r, s1)"
      and rest: "steps cfg ins s1 = Inr (rs', s')" and rs: "rs = r # rs'"
    by (auto split: sum.splits)
  from st have c: "cumulative_reward_info s1 = Some (snd (snd (snd r)))"
    by (rule step_totals)
  show ?case
  proof (cases ins)
    case Nil
    with rest rs c show ?thesis
      by simp
  next
    case (Cons j js)
    with Cons.IH [OF rest] rs show ?thesis
      by simp
  qed
qed

text \<open>
  C6: after any non-empty sequence of steps that starts with no totals (as \<open>reset\<close> leaves
  the environment), in either mode, the dictionary returned as info by the last step is the
  one kept by the environment, each of its four component totals is the sum of that
  component over the vectors of the steps, and its \<open>Original_reward\<close> is the sum of their
  weighted scalars.
\<close>

theorem totals_are_sums:
  assumes "steps cfg ins s = Inr (rs, s')" and "cumulative_reward_info s = None"
    and "ins \<noteq> []"
  shows "length (strat_rewards cfg ins s) = length ins \<and>
         (\<exists>c. cumulative_reward_info s' = Some c \<and> snd (snd (snd (last rs))) = c \<and>
            reward_move c = np_sum (map (\<lambda>v. v ! 0) (strat_rewards cfg ins s)) \<and>
            reward_ball_grad c = np_sum (map (\<lambda>v. v ! 1) (strat_rewards cfg ins s)) \<and>
            reward_energy c = np_sum (map (\<lambda>v. v ! 2) (strat_rewards cfg ins s)) \<and>
            reward_goal c = np_sum (map (\<lambda>v. v ! 3) (strat_rewards cfg ins s)) \<and>
            Original_reward c = np_sum (map weighted (strat_rewards cfg ins s)))"
proof -
  from assms(2) have z: "start_info s = zero_info"
    by (simp add: start_info_def)
  from steps_last_info [OF assms(1,3)]
  have c: "cumulative_reward_info s' = Some (snd (snd (snd (last rs))))"
    by simp
  then have "start_info s' = snd (snd (snd (last rs)))"
    by (simp add: start_info_def)
  with steps_totals [OF assms(1)] c z show ?thesis
    by (simp add: np_sum_def zero_info_def)
qed

lemma example_steps:
  "\<exists>rs s'. steps example_config [example_input, example_input]
      (example_state (example_frame 0 (1 / 2) 0) None) = Inr (rs, s') \<and>
    strat_rewards example_config [example_input, example_input]
      (example_state (example_frame 0 (1 / 2) 0) None) =
      [[Num (- 1 / 120), Num 0, Num (- 1 / 800), Num 0],
       [Num (- 1 / 120), Num 0, Num (- 1 / 800), Num 0]]"
proof -
  let ?v = "[Num (- 1 / 120), Num 0, Num (- 1 / 800), Num 0]"
  have cfg: "example_config\<lparr>stratified := True\<rparr> = example_config"
    by (simp add: example_config_def)
  have one: "\<exists>obs d s1 r s2.
      base_step example_config (act example_input) (noise example_input) (sim example_input) s =
        Inr ((obs, ?v, d), s1) \<and>
      step example_config (act example_input) (noise example_input) (sim example_input) s =
        Inr (r, s2) \<and>
      ball_x (ball (frame s2)) = 0 \<and> ball_y (ball (frame s2)) = 0"
    if "ball_x (ball (frame s)) = 0" and "ball_y (ball (frame s)) = 0" for s
  proof -
    from example_base_step [OF that, of True] obtain obs s1
      where b: "base_step example_config (1, 1 / 100) (\<lambda>k. (0, 0)) example_sim s =
        Inr ((obs, ?v, False), s1)"
      unfolding cfg by blast
    from step_unfold [OF b] obtain r s2
      where st: "step example_config (1, 1 / 100) (\<lambda>k. (0, 0)) example_sim s = Inr (r, s2)"
      by blast
    from step_frame [OF st] have "frame s2 = example_frame 0 (1 / 2) 1"
      by (simp add: example_sim_def)
    then have o: "ball_x (ball (frame s2)) = 0 \<and> ball_y (ball (frame s2)) = 0"
      by (simp add: example_frame_def)
    have e: "act example_input = (1, 1 / 100)" "noise example_input = (\<lambda>k. (0, 0))"
      "sim example_input = example_sim"
      by (simp_all add: example_input_def)
    from b st o show ?thesis
      unfolding e by blast
  qed
  let ?s0 = "example_state (example_frame 0 (1 / 2) 0) None"
  from one [OF example_state_ball] obtain obs d s1 r s2 where
    b1: "base_step example_config (act example_input) (noise example_input) (sim example_input)
           ?s0 = Inr ((obs, ?v, d), s1)"
    and s1: "step example_config (act example_input) (noise example_input) (sim example_input)
           ?s0 = Inr (r, s2)"
    and o2: "ball_x (ball (frame s2)) = 0" "ball_y (ball (frame s2)) = 0"
    by blast
  from one [OF o2] obtain obs' d' s1' r' s3 where
    b2: "base_step example_config (act example_input) (noise example_input) (sim example_input)
           s2 = Inr ((obs', ?v, d'), s1')"
    and s2: "step example_config (act example_input) (noise example_input) (sim example_input)
           s2 = Inr (r', s3)"
    by blast
  have "steps example_config [example_input, example_input] ?s0 = Inr ([r, r'], s3)"
    by (simp add: s1 s2)
  moreover have "strat_rewards example_config [example_input, example_input] ?s0 = [?v, ?v]"
    by (simp add: b1 s1 b2 s2)
  ultimately show ?thesis
    by blast
qed

theorem totals_are_sums_witness:
  "\<exists>rs s' c.
     steps example_config [example_input, example_input]
       (example_state (example_frame 0 (1 / 2) 0) None) = Inr (rs, s') \<and>
     cumulative_reward_info (example_state (example_frame 0 (1 / 2) 0) None) = None \<and>
     cumulative_reward_info s' = Some c \<and> snd (snd (snd (last rs))) = c \<and>
     reward_move c = Num (- 1 / 60) \<and> reward_ball_grad c = Num 0 \<and>
     reward_energy c = Num (- 1 / 400) \<and> reward_goal c = Num 0 \<and>
     Original_reward c = Num (2 * (- (66 / 100) / 120 - (53 / 10000) / 800))"
proof -
  let ?s0 = "example_state (example_frame 0 (1 / 2) 0) None"
  from example_steps obtain rs s' where
    st: "steps example_config [example_input, example_input] ?s0 = Inr (rs, s')"
    and sr: "strat_rewards example_config [example_input, example_input] ?s0 =
      [[Num (- 1 / 120), Num 0, Num (- 1 / 800), Num 0],
       [Num (- 1 / 120), Num 0, Num (- 1 / 800), Num 0]]"
    by blast
  have n: "cumulative_reward_info ?s0 = None"
    by (simp add: example_state_def)
  from totals_are_sums [OF st n] st n show ?thesis
    unfolding sr
    by (auto simp: np_sum_def nth_four weighted_def ori_weights_def simp del: steps.simps)
qed

subsection \<open>The placement sampler\<close>

lemma distance_commute: "distance p q = distance q p"
  by (simp add: distance_def linalg_norm_def power2_commute)

lemma get_nearest_least:
  "get_nearest places p = Some (q, d) \<Longrightarrow> \<forall>r \<in> set places. d \<le> distance p r"
proof (induction places arbitrary: q d)
  case Nil
  then show ?case
    by simp
next
  case (Cons a places)
  show ?case
  proof (cases "get_nearest places p")
    case None
    then have "places = []"
      by (cases places) (auto split: option.splits if_splits)
    with Cons.prems show ?thesis
      by auto
  next
    case (Some t)
    obtain q' d' where t: "t = (q', d')"
      by (cases t)
    from Cons.IH [of q' d'] Some t have "\<forall>r \<in> set places. d' \<le> distance p r"
      by simp
    with Cons.prems Some t show ?thesis
      by (auto split: if_splits)
  qed
qed

lemma uniform_between:
  "a \<le> b \<Longrightarrow> 0 \<le> u \<Longrightarrow> u \<le> 1 \<Longrightarrow> a \<le> uniform a b u \<and> uniform a b u \<le> b"
proof -
  assume ab: "a \<le> b" and u0: "0 \<le> u" and u1: "u \<le> 1"
  have "0 \<le> (b - a) * u"
    using ab u0 by simp
  moreover have "(b - a) * u \<le> (b - a) * 1"
    using ab u1 by (intro mult_left_mono) simp_all
  ultimately show ?thesis
    by (simp add: uniform_def)
qed

lemma drawn_in_field:
  assumes "1 / 5 \<le> field_length cfg" and "1 / 5 \<le> field_width cfg"
    and "0 \<le> u1 \<and> u1 \<le> 1" and "0 \<le> u2 \<and> u2 \<le> 1"
  shows "in_field cfg (x_of cfg u1, y_of cfg u2)"
proof -
  have "- (field_length cfg / 2) + 0.1 \<le> field_length cfg / 2 - 0.1"
    and "- (field_width cfg / 2) + 0.1 \<le> field_width cfg / 2 - 0.1"
    using assms(1,2) by simp_all
  from uniform_between [OF this(1), of u1] uniform_between [OF this(2), of u2] assms(3,4)
  show ?thesis
    by (simp add: in_field_def x_of_def y_of_def)
qed

lemma sample_pos_accepts:
  "sample_pos cfg places us = Some (pos, rest) \<Longrightarrow>
   (\<forall>q \<in> set places. min_dist \<le> distance pos q) \<and>
   (\<exists>u1 \<in> set us. \<exists>u2 \<in> set us. pos = (x_of cfg u1, y_of cfg u2)) \<and>
   set rest \<subseteq> set us"
proof (induction cfg places us rule: sample_pos.induct)
  case (1 cfg places u1 u2 us)
  let ?pos = "(x_of cfg u1, y_of cfg u2)"
  from "1.prems" obtain q d where n: "get_nearest places ?pos = Some (q, d)"
    by (auto simp: Let_def split: option.splits)
  show ?case
  proof (cases "d < min_dist")
    case True
    with "1.prems" n have "sample_pos cfg places us = Some (pos, rest)"
      by (simp add: Let_def)
    from "1.IH" [OF refl n refl True this] show ?thesis
      by auto
  next
    case False
    with "1.prems" n have "pos = ?pos" and "rest = us"
      by (simp_all add: Let_def)
    with get_nearest_least [OF n] False show ?thesis
      by fastforce
  qed
qed simp_all

lemma place_robots_invariant:
  assumes "place_robots cfg ids robots places us = Some (robots', places', rest)"
    and "distinct ids" and "sorted_wrt far places" and "\<forall>p \<in> set places. in_field cfg p"
    and "\<forall>u \<in> set us. 0 \<le> u \<and> u \<le> 1"
    and "1 / 5 \<le> field_length cfg" and "1 / 5 \<le> field_width cfg"
  shows "map Some places' = map Some places @ map (robot_pos robots') ids \<and>
         (\<forall>j. j \<notin> set ids \<longrightarrow> robots' j = robots j) \<and>
         sorted_wrt far places' \<and> (\<forall>p \<in> set places'. in_field cfg p) \<and>
         set rest \<subseteq> set us"
  using assms(1-5)
proof (induction ids arbitrary: robots places us)
  case Nil
  then show ?case
    by simp
next
  case (Cons i ids)
  from Cons.prems(1) obtain pos us1 u us2
    where sp: "sample_pos cfg places us = Some (pos, us1)" and u: "us1 = u # us2"
      and pr: "place_robots cfg ids (robots(i \<mapsto> placed_robot pos (theta_of u)))
                 (insert_point pos places) us2 = Some (robots', places', rest)"
    by (auto split: option.splits list.splits)
  from sample_pos_accepts [OF sp]
  have fa: "\<forall>q \<in> set places. min_dist \<le> distance pos q"
    and dr: "\<exists>u1 \<in> set us. \<exists>u2 \<in> set us. pos = (x_of cfg u1, y_of cfg u2)"
    and sub: "set us1 \<subseteq> set us"
    by simp_all
  from dr Cons.prems(5) assms(6,7) have inf: "in_field cfg pos"
    by (auto intro: drawn_in_field)
  from fa have "\<forall>q \<in> set places. far q pos"
    by (simp add: far_def distance_commute)
  with Cons.prems(3) have s1: "sorted_wrt far (insert_point pos places)"
    by (simp add: insert_point_def sorted_wrt_append)
  have f1: "\<forall>p \<in> set (insert_point pos places). in_field cfg p"
    using Cons.prems(4) inf by (simp add: insert_point_def)
  have u2: "\<forall>u \<in> set us2. 0 \<le> u \<and> u \<le> 1"
    using sub u Cons.prems(5) by auto
  from Cons.prems(2) have d: "distinct ids" and ni: "i \<notin> set ids"
    by simp_all
  from Cons.IH [OF pr d s1 f1 u2]
  have m: "map Some places' =
      map Some (insert_point pos places) @ map (robot_pos robots') ids"
    and k: "\<forall>j. j \<notin> set ids \<longrightarrow> robots' j = (robots(i \<mapsto> placed_robot pos (theta_of u))) j"
    and s: "sorted_wrt far places'" and f: "\<forall>p \<in> set places'. in_field cfg p"
    and r: "set rest \<subseteq> set us2"
    by simp_all
  from k ni have "robots' i = Some (placed_robot pos (theta_of u))"
    by simp
  then have "robot_pos robots' i = Some pos"
    by (simp add: robot_pos_def placed_robot_def)
  with m have "map Some places' = map Some places @ map (robot_pos robots') (i # ids)"
    by (simp add: insert_point_def)
  moreover from k have "\<forall>j. j \<notin> set (i # ids) \<longrightarrow> robots' j = robots j"
    by simp
  moreover from r sub u have "set rest \<subseteq> set us"
    by auto
  ultimately show ?case
    using s f by blast
qed

text \<open>
  C8: for every placement that \<open>_get_initial_positions_frame\<close> returns (the values of
  \<open>random()\<close> in \<open>[0, 1]\<close>, the field at least 0.2 long and wide), the points were placed
  in the order ball, blue robots by id, yellow robots by id; any two of them are at least
  0.1 apart; and every x lies in \<open>[-length/2 + 0.1, length/2 - 0.1]\<close> and every y in
  \<open>[-width/2 + 0.1, width/2 - 0.1]\<close>.
\<close>

theorem placement_separated:
  assumes "initial_positions cfg us = Some (f, places, rest)"
    and "\<forall>u \<in> set us. 0 \<le> u \<and> u \<le> 1"
    and "1 / 5 \<le> field_length cfg" and "1 / 5 \<le> field_width cfg"
  shows "get_initial_positions_frame cfg us = Some f \<and>
         map Some places =
           Some (ball_x (ball f), ball_y (ball f)) #
           map (robot_pos (robots_blue f)) [0..<n_robots_blue cfg] @
           map (robot_pos (robots_yellow f)) [0..<n_robots_yellow cfg] \<and>
         (\<forall>i < length places. \<forall>j < length places.
            i \<noteq> j \<longrightarrow> min_dist \<le> distance (places ! i) (places ! j)) \<and>
         (\<forall>p \<in> set places.
            - (field_length cfg / 2) + 0.1 \<le> fst p \<and> fst p \<le> field_length cfg / 2 - 0.1 \<and>
            - (field_width cfg / 2) + 0.1 \<le> snd p \<and> snd p \<le> field_width cfg / 2 - 0.1)"
proof -
  from assms(1) obtain u1 u2 us0 blue places1 us1 yel
    where us: "us = u1 # u2 # us0"
      and pb: "place_robots cfg [0..<n_robots_blue cfg] Map.empty
                 (insert_point (x_of cfg u1, y_of cfg u2) []) us0 = Some (blue, places1, us1)"
      and py: "place_robots cfg [0..<n_robots_yellow cfg] Map.empty places1 us1 =
                 Some (yel, places, rest)"
      and f: "f = \<lparr>ball = \<lparr>ball_x = x_of cfg u1, ball_y = y_of cfg u2,
                            ball_v_x = 0, ball_v_y = 0\<rparr>,
                   robots_blue = blue, robots_yellow = yel\<rparr>"
    by (auto simp: initial_positions_def Let_def split: list.splits option.splits)
  let ?b = "(x_of cfg u1, y_of cfg u2)"
  have b: "in_field cfg ?b"
    using assms(2-4) us by (intro drawn_in_field) simp_all
  have u0: "\<forall>u \<in> set us0. 0 \<le> u \<and> u \<le> 1"
    using assms(2) us by simp
  from place_robots_invariant [OF pb _ _ _ u0 assms(3,4)] b
  have m1: "map Some places1 = [Some ?b] @ map (robot_pos blue) [0..<n_robots_blue cfg]"
    and s1: "sorted_wrt far places1" and f1: "\<forall>p \<in> set places1. in_field cfg p"
    and r1: "set us1 \<subseteq> set us0"
    by (simp_all add: insert_point_def)
  from r1 u0 have u1: "\<forall>u \<in> set us1. 0 \<le> u \<and> u \<le> 1"
    by auto
  from place_robots_invariant [OF py _ s1 f1 u1 assms(3,4)]
  have m2: "map Some places = map Some places1 @ map (robot_pos yel) [0..<n_robots_yellow cfg]"
    and s2: "sorted_wrt far places" and f2: "\<forall>p \<in> set places. in_field cfg p"
    by simp_all
  have sep: "min_dist \<le> distance (places ! i) (places ! j)"
    if "i < length places" "j < length places" "i \<noteq> j" for i j
  proof (cases "i < j")
    case True
    with s2 that show ?thesis
      by (simp add: sorted_wrt_iff_nth_less far_def)
  next
    case False
    with that have "j < i"
      by simp
    with s2 that have "far (places ! j) (places ! i)"
      by (simp add: sorted_wrt_iff_nth_less)
    then show ?thesis
      by (simp add: far_def distance_commute)
  qed
  have "get_initial_positions_frame cfg us = Some f"
    using assms(1) by (simp add: get_initial_positions_frame_def)
  moreover have "map Some places =
           Some (ball_x (ball f), ball_y (ball f)) #
           map (robot_pos (robots_blue f)) [0..<n_robots_blue cfg] @
           map (robot_pos (robots_yellow f)) [0..<n_robots_yellow cfg]"
    using m1 m2 f by simp
  ultimately show ?thesis
    using sep f2 by (simp add: in_field_def)
qed

lemma example_placement:
  "initial_positions example_config example_draws =
     Some (\<lparr>ball = \<lparr>ball_x = 0, ball_y = 0, ball_v_x = 0, ball_v_y = 0\<rparr>,
            robots_blue = [0 \<mapsto> placed_robot (- (13 / 20), 0) 90],
            robots_yellow = [0 \<mapsto> placed_robot (13 / 20, 0) 180]\<rparr>,
           [(0, 0), (- (13 / 20), 0), (13 / 20, 0)], [])"
  by (simp add: initial_positions_def example_config_def example_draws_def x_of_def y_of_def
      theta_of_def uniform_def insert_point_def distance_def min_dist_def)

theorem placement_separated_witness:
  "initial_positions example_config example_draws =
     Some (\<lparr>ball = \<lparr>ball_x = 0, ball_y = 0, ball_v_x = 0, ball_v_y = 0\<rparr>,
            robots_blue = [0 \<mapsto> placed_robot (- (13 / 20), 0) 90],
            robots_yellow = [0 \<mapsto> placed_robot (13 / 20, 0) 180]\<rparr>,
           [(0, 0), (- (13 / 20), 0), (13 / 20, 0)], []) \<and>
   min_dist \<le> distance (0, 0) (- (13 / 20), 0) \<and>
   min_dist \<le> distance (0, 0) (13 / 20, 0) \<and>
   min_dist \<le> distance (- (13 / 20), 0) (13 / 20, 0) \<and>
   - (field_length example_config / 2) + 0.1 \<le> - (13 / 20) \<and>
   13 / 20 \<le> field_length example_config / 2 - 0.1"
proof -
  have u: "\<forall>u \<in> set example_draws. 0 \<le> u \<and> u \<le> 1"
    by (simp add: example_draws_def)
  have l: "1 / 5 \<le> field_length example_config" and w: "1 / 5 \<le> field_width example_config"
    by (simp_all add: example_config_def)
  note t = placement_separated [OF example_placement u l w]
  from t have "\<forall>i < 3. \<forall>j < 3. i \<noteq> j \<longrightarrow>
      min_dist \<le> distance ([(0, 0), (- (13 / 20), 0), (13 / 20, 0)] ! i)
                            ([(0, 0), (- (13 / 20), 0), (13 / 20 :: real, 0 :: real)] ! j)"
    by simp
  then have "min_dist \<le> distance (0, 0) (- (13 / 20), 0)"
    and "min_dist \<le> distance (0, 0) (13 / 20, 0)"
    and "min_dist \<le> distance (- (13 / 20), 0) (13 / 20, 0)"
    by (auto simp: numeral_3_eq_3 less_Suc_eq)
  moreover from t have "- (field_length example_config / 2) + 0.1 \<le> - (13 / 20)"
    and "13 / 20 \<le> field_length example_config / 2 - 0.1"
    by simp_all
  ultimately show ?thesis
    using example_placement by simp
qed

end
